theory Spec2Isabelle
  imports Complex_Main
begin

section \<open>Data model (app/models.py, app/schemas.py)\<close>

text \<open>
  A Python \<open>str\<close> is a sequence of Unicode code points, and \<open>len\<close> (which pydantic's
  \<open>min_length\<close> uses) counts code points: free text is a list of code points. Keys and
  messages that the source writes as ASCII literals are HOL strings.
  A \<open>datetime.date\<close> is its proleptic ordinal, so that \<open>(d1 - d2).days\<close> is integer
  subtraction; a \<open>datetime\<close> is a count of microseconds, so that
  \<open>timedelta(days=n)\<close> is \<open>n * 86400000000\<close>. A finite Python float is a rational
  (nan and the infinities are outside the model).
\<close>

type_synonym pystr = "nat list"
type_synonym date = int
type_synonym datetime = int

datatype AssetType = LAPTOP | MONITOR | DOCK | HEADSET | CAMERA | KEYBOARD | MOUSE | OTHER

datatype AssetStatus = ACTIVE | AVAILABLE | REPAIR | DECOMMISSIONED

datatype UserRole = ADMIN | TECHNICIAN | VIEWER

record User =
  u_id :: int
  u_email :: pystr
  u_username :: pystr
  u_full_name :: pystr
  u_role :: UserRole
  u_is_active :: bool

record Employee =
  e_id :: int
  e_employee_id :: "pystr option"
  e_email :: pystr
  e_full_name :: pystr
  e_department :: "pystr option"
  e_location :: "pystr option"
  e_manager :: "pystr option"
  e_is_active :: bool

text \<open>
  The columns of \<open>assets\<close>. A nullable column is an option; \<open>status\<close> is nullable in
  the table (it only has a default). The two timestamps \<open>created_at\<close> and
  \<open>updated_at\<close>, which the database server maintains, are not modelled.
\<close>

record Asset =
  id' :: int
  asset_tag :: pystr
  asset_type :: AssetType
  name :: pystr
  manufacturer :: "pystr option"
  model :: "pystr option"
  serial_number :: "pystr option"
  purchase_date :: "date option"
  purchase_price :: "rat option"
  warranty_end :: "date option"
  vendor :: "pystr option"
  po_number :: "pystr option"
  status :: "AssetStatus option"
  assigned_to :: "int option"
  assigned_date :: "date option"
  decommission_date :: "date option"
  decommission_reason :: "pystr option"
  notes' :: "pystr option"
  location :: "pystr option"

text \<open>Rows of the insert-only tables; the surrogate key the store assigns is not modelled.\<close>

record Repair =
  r_asset_id :: int
  repair_date :: date
  issue_description :: pystr
  resolution :: "pystr option"
  cost :: rat
  is_warranty_repair :: bool
  r_vendor :: "pystr option"
  ticket_number :: "pystr option"

record WarrantyNotification =
  n_asset_id :: int
  notification_type :: string
  sent_at :: datetime

text \<open>
  The values a \<open>changes\<close> dict of \<open>log_action\<close> holds. \<open>PStrOf v\<close> is the text
  \<open>str(v)\<close>, kept symbolic. A dict is an association list in insertion order; the dict
  of \<open>update_asset\<close> maps a field to a nested dict.
\<close>

datatype py_value =
    PNone
  | PInt int
  | PStr pystr
  | PFloat rat
  | PBool bool
  | PDate date
  | PAssetType AssetType
  | PAssetStatus AssetStatus
  | PStrOf py_value

datatype json_in = JAtom py_value | JDict "(string \<times> py_value) list"

type_synonym py_dict = "(string \<times> json_in) list"

record AuditLog =
  l_user_id :: int
  l_asset_id :: "int option"
  action :: string
  entity_type :: string
  entity_id :: "int option"
  changes :: "py_dict option"

text \<open>The dict built per asset for the alert mail, and the one of the dashboard summary.\<close>

record asset_data =
  ad_asset_tag :: pystr
  ad_name :: pystr
  ad_serial_number :: "pystr option"
  ad_warranty_end :: date
  days_remaining :: int
  ad_assigned_to :: "pystr option"

record asset_info =
  ai_id :: int
  ai_asset_tag :: pystr
  ai_name :: pystr
  ai_warranty_end :: date
  ai_days_remaining :: int
  ai_assigned_to :: "pystr option"

text \<open>
  Calls of the mail service, in the order they are made: the assignment notice (employee
  mail address, employee name, the asset's name, tag, type and serial number, the date)
  and the warranty alert (recipients, the asset dicts, the alert type).
\<close>

datatype mail_call =
    AssignmentMail pystr pystr "pystr \<times> pystr \<times> AssetType \<times> pystr option" date
  | WarrantyMail "pystr list" "asset_data list" string

text \<open>The store the handlers and the scheduled job work on, and the mail calls made.\<close>

record world =
  assets :: "Asset list"
  employees :: "Employee list"
  users :: "User list"
  repairs :: "Repair list"
  audit_logs :: "AuditLog list"
  warranty_notifications :: "WarrantyNotification list"
  mail_log :: "mail_call list"

datatype error =
    HTTPException nat string
  | ValidationError
  | TypeError
  | IntegrityError

section \<open>Warranty notifications (app/services/warranty_service.py)\<close>

definition get_admin_emails :: "world \<Rightarrow> pystr list" where
  "get_admin_emails db =
     map u_email
       (filter (\<lambda>admin. (u_role admin = ADMIN \<or> u_role admin = TECHNICIAN) \<and> u_is_active admin)
          (users db))"

definition timedelta_days :: "int \<Rightarrow> int" where
  "timedelta_days n = n * 86400000000"

text \<open>\<open>utcnow\<close> is the reading of the clock, \<open>datetime.utcnow()\<close>.\<close>

definition check_warranty_already_notified ::
  "world \<Rightarrow> datetime \<Rightarrow> int \<Rightarrow> string \<Rightarrow> int \<Rightarrow> bool" where
  "check_warranty_already_notified db utcnow asset_id ntype days_lookback =
     (let cutoff = utcnow - timedelta_days days_lookback;
          existing = find (\<lambda>n. n_asset_id n = asset_id \<and> notification_type n = ntype
                                \<and> sent_at n \<ge> cutoff)
                       (warranty_notifications db)
      in existing \<noteq> None)"

text \<open>\<open>sent_at\<close> is the column's server default, the time of the insert.\<close>

definition record_notification :: "datetime \<Rightarrow> string \<Rightarrow> world \<Rightarrow> int \<Rightarrow> world" where
  "record_notification now ntype db asset_id =
     db\<lparr>warranty_notifications := warranty_notifications db @
          [\<lparr>n_asset_id = asset_id, notification_type = ntype, sent_at = now\<rparr>]\<rparr>"

text \<open>The relationship \<open>asset.assigned_employee\<close>: the employee \<open>assigned_to\<close> refers to.\<close>

definition assigned_employee :: "world \<Rightarrow> Asset \<Rightarrow> Employee option" where
  "assigned_employee db asset =
     (case assigned_to asset of
        None \<Rightarrow> None
      | Some eid \<Rightarrow> find (\<lambda>e. e_id e = eid) (employees db))"

text \<open>
  The query of the job and of the summary: \<open>status != DECOMMISSIONED\<close> and
  \<open>warranty_end IS NOT NULL\<close>, in the order of the table. In SQL a null status does not
  satisfy \<open>!=\<close>, so such a row is not fetched.
\<close>

definition warranty_candidates :: "world \<Rightarrow> Asset list" where
  "warranty_candidates db =
     filter (\<lambda>a. status a \<noteq> None \<and> status a \<noteq> Some DECOMMISSIONED \<and> warranty_end a \<noteq> None)
       (assets db)"

text \<open>
  The dict \<open>asset_data\<close> of the loop; \<open>warranty_end\<close> is kept as the date
  (the source stores its ISO text).
\<close>

definition mk_asset_data :: "world \<Rightarrow> Asset \<Rightarrow> date \<Rightarrow> int \<Rightarrow> asset_data" where
  "mk_asset_data db asset wend days =
     \<lparr>ad_asset_tag = asset_tag asset, ad_name = name asset,
      ad_serial_number = serial_number asset, ad_warranty_end = wend,
      days_remaining = days,
      ad_assigned_to = map_option e_full_name (assigned_employee db asset)\<rparr>"

type_synonym batch = "(Asset \<times> asset_data) list"

text \<open>
  One pass of the loop of \<open>check_and_send_warranty_alerts\<close> over an asset whose
  \<open>warranty_end\<close> is \<open>wend\<close>; the accumulators are \<open>expiring_90\<close>,
  \<open>expiring_30\<close> and \<open>expired\<close>.
\<close>

definition classify_step ::
  "world \<Rightarrow> date \<Rightarrow> datetime \<Rightarrow> Asset \<Rightarrow> date \<Rightarrow> batch \<times> batch \<times> batch \<Rightarrow> batch \<times> batch \<times> batch" where
  "classify_step db today utcnow asset wend acc =
     (case acc of (expiring_90, expiring_30, expired) \<Rightarrow>
        let days = wend - today;
            data = mk_asset_data db asset wend days
        in if days < 0 then
             (if \<not> check_warranty_already_notified db utcnow (id' asset) ''expired'' 30
              then (expiring_90, expiring_30, expired @ [(asset, data)])
              else acc)
           else if days \<le> 30 then
             (if \<not> check_warranty_already_notified db utcnow (id' asset) ''30_day'' 7
              then (expiring_90, expiring_30 @ [(asset, data)], expired)
              else acc)
           else if days \<le> 90 then
             (if \<not> check_warranty_already_notified db utcnow (id' asset) ''90_day'' 14
              then (expiring_90 @ [(asset, data)], expiring_30, expired)
              else acc)
           else acc)"

text \<open>
  The loop. \<open>asset.warranty_end - today\<close> raises \<open>TypeError\<close> on \<open>None\<close>; the
  query excludes such rows, and the model keeps the branch.
\<close>

fun classify_loop ::
  "world \<Rightarrow> date \<Rightarrow> datetime \<Rightarrow> Asset list \<Rightarrow> batch \<times> batch \<times> batch
     \<Rightarrow> error + batch \<times> batch \<times> batch" where
  "classify_loop db today utcnow [] acc = Inr acc"
| "classify_loop db today utcnow (asset # rest) acc =
     (case warranty_end asset of
        None \<Rightarrow> Inl TypeError
      | Some wend \<Rightarrow> classify_loop db today utcnow rest (classify_step db today utcnow asset wend acc))"

definition classify_all :: "world \<Rightarrow> date \<Rightarrow> datetime \<Rightarrow> error + batch \<times> batch \<times> batch" where
  "classify_all db today utcnow =
     classify_loop db today utcnow (warranty_candidates db) ([], [], [])"

text \<open>
  One of the three blocks after the loop: if the batch is not empty, one call of
  \<open>send_warranty_alert\<close>; if it reports success, one history row per asset of the
  batch. The outcome of a call is the parameter \<open>send\<close> (the mail service returns
  False on every failure).
\<close>

definition send_batch ::
  "(pystr list \<Rightarrow> asset_data list \<Rightarrow> string \<Rightarrow> bool) \<Rightarrow> datetime \<Rightarrow> pystr list
     \<Rightarrow> batch \<Rightarrow> string \<Rightarrow> string \<Rightarrow> world \<Rightarrow> world" where
  "send_batch send now admin_emails items alert_type ntype db =
     (if items \<noteq> [] then
        (let payload = map snd items;
             success = send admin_emails payload alert_type;
             db1 = db\<lparr>mail_log := mail_log db @ [WarrantyMail admin_emails payload alert_type]\<rparr>
         in if success
            then foldl (record_notification now ntype) db1 (map (\<lambda>(asset, _). id' asset) items)
            else db1)
      else db)"

text \<open>
  The scheduled job. \<open>today\<close> is \<open>date.today()\<close>, \<open>now\<close> the clock (one reading
  for the whole run, for the cutoffs and for the rows written). The handler
  \<open>except Exception\<close> logs and returns.
\<close>

definition check_and_send_warranty_alerts ::
  "(pystr list \<Rightarrow> asset_data list \<Rightarrow> string \<Rightarrow> bool) \<Rightarrow> date \<Rightarrow> datetime \<Rightarrow> world \<Rightarrow> world" where
  "check_and_send_warranty_alerts send today now db =
     (case classify_all db today now of
        Inl e \<Rightarrow> db
      | Inr (expiring_90, expiring_30, expired) \<Rightarrow>
          (let admin_emails = get_admin_emails db in
           if admin_emails = [] then db
           else
             (let db1 = send_batch send now admin_emails expired ''expired'' ''expired'' db;
                  db2 = send_batch send now admin_emails expiring_30 ''expiring_30'' ''30_day'' db1;
                  db3 = send_batch send now admin_emails expiring_90 ''expiring_90'' ''90_day'' db2
              in db3)))"

record summary =
  s_expired :: "asset_info list"
  s_critical_30 :: "asset_info list"
  s_warning_90 :: "asset_info list"
  s_active :: "asset_info list"

definition mk_asset_info :: "world \<Rightarrow> Asset \<Rightarrow> date \<Rightarrow> int \<Rightarrow> asset_info" where
  "mk_asset_info db asset wend days =
     \<lparr>ai_id = id' asset, ai_asset_tag = asset_tag asset, ai_name = name asset,
      ai_warranty_end = wend, ai_days_remaining = days,
      ai_assigned_to = map_option e_full_name (assigned_employee db asset)\<rparr>"

definition summary_step :: "world \<Rightarrow> date \<Rightarrow> Asset \<Rightarrow> date \<Rightarrow> summary \<Rightarrow> summary" where
  "summary_step db today asset wend s =
     (let days = wend - today;
          info = mk_asset_info db asset wend days
      in if days < 0 then s\<lparr>s_expired := s_expired s @ [info]\<rparr>
         else if days \<le> 30 then s\<lparr>s_critical_30 := s_critical_30 s @ [info]\<rparr>
         else if days \<le> 90 then s\<lparr>s_warning_90 := s_warning_90 s @ [info]\<rparr>
         else s\<lparr>s_active := s_active s @ [info]\<rparr>)"

fun summary_loop :: "world \<Rightarrow> date \<Rightarrow> Asset list \<Rightarrow> summary \<Rightarrow> error + summary" where
  "summary_loop db today [] s = Inr s"
| "summary_loop db today (asset # rest) s =
     (case warranty_end asset of
        None \<Rightarrow> Inl TypeError
      | Some wend \<Rightarrow> summary_loop db today rest (summary_step db today asset wend s))"

definition get_warranty_summary :: "world \<Rightarrow> date \<Rightarrow> error + summary" where
  "get_warranty_summary db today =
     summary_loop db today (warranty_candidates db)
       \<lparr>s_expired = [], s_critical_30 = [], s_warning_90 = [], s_active = []\<rparr>"

section \<open>Asset routes (app/routes/assets.py)\<close>

subsection \<open>Request bodies (app/schemas.py)\<close>

record AssetAssign =
  employee_id :: "int option"

text \<open>
  \<open>AssetUpdate\<close>: every field is optional, and \<open>model_dump(exclude_unset=True)\<close>
  keeps the fields the request sets, also those it sets to null. A field is \<open>None\<close> when
  the request leaves it out, \<open>Some None\<close> when it sets it to null.
\<close>

record AssetUpdate =
  up_asset_type :: "AssetType option option"
  up_name :: "pystr option option"
  up_manufacturer :: "pystr option option"
  up_model :: "pystr option option"
  up_serial_number :: "pystr option option"
  up_purchase_date :: "date option option"
  up_purchase_price :: "rat option option"
  up_warranty_end :: "date option option"
  up_vendor :: "pystr option option"
  up_po_number :: "pystr option option"
  up_notes :: "pystr option option"
  up_location :: "pystr option option"
  up_status :: "AssetStatus option option"

record AssetDecommission =
  reason :: pystr

record RepairCreate =
  rc_repair_date :: date
  rc_issue_description :: pystr
  rc_resolution :: "pystr option"
  rc_cost :: rat
  rc_is_warranty_repair :: bool
  rc_vendor :: "pystr option"
  rc_ticket_number :: "pystr option"
  rc_asset_id :: int

text \<open>
  \<open>reason: str = Field(..., min_length=10)\<close>: the framework validates the body before
  it calls the handler, and answers a body that fails with a validation error.
\<close>

definition validate_AssetDecommission :: "pystr \<Rightarrow> error + AssetDecommission" where
  "validate_AssetDecommission r =
     (if length r < 10 then Inl ValidationError else Inr \<lparr>reason = r\<rparr>)"

subsection \<open>The audit log\<close>

text \<open>
  \<open>json.dumps\<close> raises \<open>TypeError\<close> on a \<open>datetime.date\<close>; the enums are \<open>str\<close>
  subclasses and are written as strings. The text it returns is kept as the dict itself.
\<close>

fun json_serializable :: "py_value \<Rightarrow> bool" where
  "json_serializable (PDate d) = False"
| "json_serializable v = True"

definition json_dumps :: "py_dict \<Rightarrow> error + py_dict" where
  "json_dumps d =
     (if list_all (\<lambda>(k, v). case v of JAtom x \<Rightarrow> json_serializable x
                                | JDict kvs \<Rightarrow> list_all (\<lambda>(k', x). json_serializable x) kvs) d
      then Inr d else Inl TypeError)"

text \<open>\<open>changes=json.dumps(changes) if changes else None\<close>: an empty dict is falsy.\<close>

definition log_action ::
  "world \<Rightarrow> int \<Rightarrow> string \<Rightarrow> string \<Rightarrow> int option \<Rightarrow> py_dict option \<Rightarrow> int option
     \<Rightarrow> error + world" where
  "log_action db user_id act etype eid chg asset_id =
     (case (case chg of
              None \<Rightarrow> Inr None
            | Some d \<Rightarrow> if d = [] then Inr None
                        else (case json_dumps d of Inl e \<Rightarrow> Inl e | Inr txt \<Rightarrow> Inr (Some txt))) of
        Inl e \<Rightarrow> Inl e
      | Inr txt \<Rightarrow>
          Inr (db\<lparr>audit_logs := audit_logs db @
                 [\<lparr>l_user_id = user_id, l_asset_id = asset_id, action = act,
                   entity_type = etype, entity_id = eid, changes = txt\<rparr>]\<rparr>))"

subsection \<open>The store\<close>

text \<open>\<open>db.query(Asset).filter(Asset.id == asset_id).first()\<close>\<close>

definition query_asset :: "world \<Rightarrow> int \<Rightarrow> Asset option" where
  "query_asset db asset_id = find (\<lambda>a. id' a = asset_id) (assets db)"

text \<open>The commit writes the changed object back to its row (the row with its key).\<close>

fun save_asset :: "Asset \<Rightarrow> Asset list \<Rightarrow> Asset list" where
  "save_asset a [] = []"
| "save_asset a (x # xs) = (if id' x = id' a then a # xs else x # save_asset a xs)"

text \<open>The truth value of an optional integer: \<open>None\<close> and \<open>0\<close> are falsy.\<close>

definition py_bool :: "int option \<Rightarrow> bool" where
  "py_bool v = (case v of None \<Rightarrow> False | Some n \<Rightarrow> n \<noteq> 0)"

definition py_int :: "int option \<Rightarrow> py_value" where
  "py_int v = (case v of None \<Rightarrow> PNone | Some n \<Rightarrow> PInt n)"

definition py_str :: "pystr option \<Rightarrow> py_value" where
  "py_str v = (case v of None \<Rightarrow> PNone | Some s \<Rightarrow> PStr s)"

definition py_date :: "date option \<Rightarrow> py_value" where
  "py_date v = (case v of None \<Rightarrow> PNone | Some d \<Rightarrow> PDate d)"

definition py_float :: "rat option \<Rightarrow> py_value" where
  "py_float v = (case v of None \<Rightarrow> PNone | Some x \<Rightarrow> PFloat x)"

definition py_asset_type :: "AssetType option \<Rightarrow> py_value" where
  "py_asset_type v = (case v of None \<Rightarrow> PNone | Some t \<Rightarrow> PAssetType t)"

definition py_status :: "AssetStatus option \<Rightarrow> py_value" where
  "py_status v = (case v of None \<Rightarrow> PNone | Some s \<Rightarrow> PAssetStatus s)"

subsection \<open>\<open>update_asset\<close>\<close>

text \<open>
  One pass of the loop over \<open>update_dict.items()\<close>, for the field \<open>field\<close> with the
  value \<open>u\<close> of the request: if the field is set and differs from the attribute, the
  change is noted and the attribute is set.
\<close>

definition set_field ::
  "string \<Rightarrow> (Asset \<Rightarrow> 'a) \<Rightarrow> ('a \<Rightarrow> Asset \<Rightarrow> Asset) \<Rightarrow> ('a \<Rightarrow> py_value) \<Rightarrow> 'a option
     \<Rightarrow> Asset \<times> py_dict \<Rightarrow> Asset \<times> py_dict" where
  "set_field field getattr setattr to_py u st =
     (case u of
        None \<Rightarrow> st
      | Some v \<Rightarrow>
          (case st of (asset, chg) \<Rightarrow>
             let old_value = getattr asset in
             if old_value \<noteq> v
             then (setattr v asset,
                   chg @ [(field, JDict [(''old'', PStrOf (to_py old_value)),
                                          (''new'', PStrOf (to_py v))])])
             else st))"

text \<open>
  The fields in the order of the schema. The columns \<open>asset_type\<close> and \<open>name\<close> are
  not nullable: a null for one of them stays in the session object and makes the commit
  fail (\<open>null_violation\<close> below), so the setter has nothing to store for it.
\<close>

definition apply_updates :: "AssetUpdate \<Rightarrow> Asset \<times> py_dict \<Rightarrow> Asset \<times> py_dict" where
  "apply_updates u st0 =
     (let st1 = set_field ''asset_type'' (\<lambda>a. Some (asset_type a))
                  (\<lambda>v a. case v of None \<Rightarrow> a | Some t \<Rightarrow> a\<lparr>asset_type := t\<rparr>)
                  py_asset_type (up_asset_type u) st0;
          st2 = set_field ''name'' (\<lambda>a. Some (name a))
                  (\<lambda>v a. case v of None \<Rightarrow> a | Some n \<Rightarrow> a\<lparr>name := n\<rparr>)
                  py_str (up_name u) st1;
          st3 = set_field ''manufacturer'' manufacturer (\<lambda>v a. a\<lparr>manufacturer := v\<rparr>)
                  py_str (up_manufacturer u) st2;
          st4 = set_field ''model'' model (\<lambda>v a. a\<lparr>model := v\<rparr>) py_str (up_model u) st3;
          st5 = set_field ''serial_number'' serial_number (\<lambda>v a. a\<lparr>serial_number := v\<rparr>)
                  py_str (up_serial_number u) st4;
          st6 = set_field ''purchase_date'' purchase_date (\<lambda>v a. a\<lparr>purchase_date := v\<rparr>)
                  py_date (up_purchase_date u) st5;
          st7 = set_field ''purchase_price'' purchase_price (\<lambda>v a. a\<lparr>purchase_price := v\<rparr>)
                  py_float (up_purchase_price u) st6;
          st8 = set_field ''warranty_end'' warranty_end (\<lambda>v a. a\<lparr>warranty_end := v\<rparr>)
                  py_date (up_warranty_end u) st7;
          st9 = set_field ''vendor'' vendor (\<lambda>v a. a\<lparr>vendor := v\<rparr>) py_str (up_vendor u) st8;
          st10 = set_field ''po_number'' po_number (\<lambda>v a. a\<lparr>po_number := v\<rparr>)
                   py_str (up_po_number u) st9;
          st11 = set_field ''notes'' notes' (\<lambda>v a. a\<lparr>notes' := v\<rparr>) py_str (up_notes u) st10;
          st12 = set_field ''location'' location (\<lambda>v a. a\<lparr>location := v\<rparr>)
                   py_str (up_location u) st11;
          st13 = set_field ''status'' status (\<lambda>v a. a\<lparr>status := v\<rparr>) py_status (up_status u) st12
      in st13)"

definition null_violation :: "AssetUpdate \<Rightarrow> bool" where
  "null_violation u = (up_asset_type u = Some None \<or> up_name u = Some None)"

text \<open>\<open>serial_number\<close> is unique: the commit fails when the new value is another row's.\<close>

definition unique_violation :: "world \<Rightarrow> Asset \<Rightarrow> Asset \<Rightarrow> bool" where
  "unique_violation db asset asset' =
     (serial_number asset' \<noteq> serial_number asset \<and> serial_number asset' \<noteq> None \<and>
      list_ex (\<lambda>x. id' x \<noteq> id' asset \<and> serial_number x = serial_number asset') (assets db))"

definition update_asset ::
  "int \<Rightarrow> AssetUpdate \<Rightarrow> User \<Rightarrow> world \<Rightarrow> (error + Asset) \<times> world" where
  "update_asset asset_id update_data current_user db =
     (case query_asset db asset_id of
        None \<Rightarrow> (Inl (HTTPException 404 ''Asset not found''), db)
      | Some asset \<Rightarrow>
          (case apply_updates update_data (asset, []) of (asset', chg) \<Rightarrow>
             (case (if chg \<noteq> []
                    then log_action db (u_id current_user) ''UPDATE'' ''asset'' (Some (id' asset))
                           (Some chg) (Some (id' asset))
                    else Inr db) of
                Inl e \<Rightarrow> (Inl e, db)
              | Inr db1 \<Rightarrow>
                  if null_violation update_data \<or> unique_violation db asset asset'
                  then (Inl IntegrityError, db)
                  else (Inr asset', db1\<lparr>assets := save_asset asset' (assets db1)\<rparr>))))"

subsection \<open>\<open>assign_asset\<close>\<close>

text \<open>
  \<open>today\<close> is \<open>date.today()\<close>. The mail to the employee is sent before the audit
  entry is written; its outcome is not looked at.
\<close>

definition assign_asset ::
  "int \<Rightarrow> AssetAssign \<Rightarrow> User \<Rightarrow> date \<Rightarrow> world \<Rightarrow> (error + Asset) \<times> world" where
  "assign_asset asset_id assignment current_user today db =
     (case query_asset db asset_id of
        None \<Rightarrow> (Inl (HTTPException 404 ''Asset not found''), db)
      | Some asset \<Rightarrow>
          if status asset = Some DECOMMISSIONED
          then (Inl (HTTPException 400 ''Cannot assign decommissioned asset''), db)
          else
            (let old_employee_id = assigned_to asset;
                 staged =
                   (if py_bool (employee_id assignment)
                    then (case find (\<lambda>e. Some (e_id e) = employee_id assignment) (employees db) of
                            None \<Rightarrow> Inl (HTTPException 404 ''Employee not found'')
                          | Some employee \<Rightarrow>
                              Inr (asset\<lparr>assigned_to := Some (e_id employee),
                                         assigned_date := Some today,
                                         status := Some ACTIVE\<rparr>,
                                   db\<lparr>mail_log := mail_log db @
                                        [AssignmentMail (e_email employee) (e_full_name employee)
                                           (name asset, asset_tag asset, asset_type asset,
                                            serial_number asset)
                                           today]\<rparr>))
                    else Inr (asset\<lparr>assigned_to := None, assigned_date := None,
                                    status := Some AVAILABLE\<rparr>, db))
             in case staged of
                  Inl e \<Rightarrow> (Inl e, db)
                | Inr (asset', db1) \<Rightarrow>
                    (case log_action db1 (u_id current_user) ''ASSIGN'' ''asset'' (Some (id' asset))
                            (Some [(''old_employee_id'', JAtom (py_int old_employee_id)),
                                   (''new_employee_id'', JAtom (py_int (employee_id assignment)))])
                            (Some (id' asset)) of
                       Inl e \<Rightarrow> (Inl e, db1)
                     | Inr db2 \<Rightarrow> (Inr asset', db2\<lparr>assets := save_asset asset' (assets db2)\<rparr>))))"

subsection \<open>\<open>decommission_asset\<close>\<close>

definition decommission_asset ::
  "int \<Rightarrow> AssetDecommission \<Rightarrow> User \<Rightarrow> date \<Rightarrow> world \<Rightarrow> (error + Asset) \<times> world" where
  "decommission_asset asset_id decommission_data current_user today db =
     (case query_asset db asset_id of
        None \<Rightarrow> (Inl (HTTPException 404 ''Asset not found''), db)
      | Some asset \<Rightarrow>
          if status asset = Some DECOMMISSIONED
          then (Inl (HTTPException 400 ''Asset is already decommissioned''), db)
          else
            (let asset' = asset\<lparr>status := Some DECOMMISSIONED,
                                 decommission_date := Some today,
                                 decommission_reason := Some (reason decommission_data),
                                 assigned_to := None,
                                 assigned_date := None\<rparr>
             in case log_action db (u_id current_user) ''DECOMMISSION'' ''asset'' (Some (id' asset))
                       (Some [(''reason'', JAtom (PStr (reason decommission_data)))])
                       (Some (id' asset)) of
                  Inl e \<Rightarrow> (Inl e, db)
                | Inr db1 \<Rightarrow> (Inr asset', db1\<lparr>assets := save_asset asset' (assets db1)\<rparr>)))"

text \<open>The route: the body is validated, then the handler runs.\<close>

definition decommission_route ::
  "int \<Rightarrow> pystr \<Rightarrow> User \<Rightarrow> date \<Rightarrow> world \<Rightarrow> (error + Asset) \<times> world" where
  "decommission_route asset_id body_reason current_user today db =
     (case validate_AssetDecommission body_reason of
        Inl e \<Rightarrow> (Inl e, db)
      | Inr decommission_data \<Rightarrow> decommission_asset asset_id decommission_data current_user today db)"

subsection \<open>\<open>add_repair\<close>\<close>

text \<open>\<open>repair_data.model_dump()\<close>: the fields of \<open>RepairBase\<close>, then \<open>asset_id\<close>.\<close>

definition RepairCreate_model_dump :: "RepairCreate \<Rightarrow> py_dict" where
  "RepairCreate_model_dump r =
     [(''repair_date'', JAtom (PDate (rc_repair_date r))),
      (''issue_description'', JAtom (PStr (rc_issue_description r))),
      (''resolution'', JAtom (py_str (rc_resolution r))),
      (''cost'', JAtom (PFloat (rc_cost r))),
      (''is_warranty_repair'', JAtom (PBool (rc_is_warranty_repair r))),
      (''vendor'', JAtom (py_str (rc_vendor r))),
      (''ticket_number'', JAtom (py_str (rc_ticket_number r))),
      (''asset_id'', JAtom (PInt (rc_asset_id r)))]"

definition new_repair :: "int \<Rightarrow> RepairCreate \<Rightarrow> Repair" where
  "new_repair asset_id repair_data =
     \<lparr>r_asset_id = asset_id, repair_date = rc_repair_date repair_data,
      issue_description = rc_issue_description repair_data,
      resolution = rc_resolution repair_data, cost = rc_cost repair_data,
      is_warranty_repair = rc_is_warranty_repair repair_data,
      r_vendor = rc_vendor repair_data, ticket_number = rc_ticket_number repair_data\<rparr>"

text \<open>
  What the handler has put into the session when it calls \<open>log_action\<close>: the new repair
  (\<open>db.add(repair)\<close>) and, unless the asset is decommissioned, the status \<open>repair\<close>.
\<close>

definition add_repair_staged :: "int \<Rightarrow> RepairCreate \<Rightarrow> Asset \<Rightarrow> world \<Rightarrow> Asset \<times> world" where
  "add_repair_staged asset_id repair_data asset db =
     (let db1 = db\<lparr>repairs := repairs db @ [new_repair asset_id repair_data]\<rparr>;
          asset' = (if status asset \<noteq> Some DECOMMISSIONED then asset\<lparr>status := Some REPAIR\<rparr>
                    else asset)
      in (asset', db1\<lparr>assets := save_asset asset' (assets db1)\<rparr>))"

text \<open>
  The audit entry takes \<open>repair.id\<close>, which is still \<open>None\<close> (nothing was flushed), and
  the dumped body. When \<open>log_action\<close> raises, the request ends before the commit and the
  session is discarded.
\<close>

definition add_repair ::
  "int \<Rightarrow> RepairCreate \<Rightarrow> User \<Rightarrow> world \<Rightarrow> (error + Repair) \<times> world" where
  "add_repair asset_id repair_data current_user db =
     (case query_asset db asset_id of
        None \<Rightarrow> (Inl (HTTPException 404 ''Asset not found''), db)
      | Some asset \<Rightarrow>
          (case add_repair_staged asset_id repair_data asset db of (asset', db1) \<Rightarrow>
             (case log_action db1 (u_id current_user) ''CREATE'' ''repair'' None
                     (Some (RepairCreate_model_dump repair_data)) (Some (id' asset)) of
                Inl e \<Rightarrow> (Inl e, db)
              | Inr db2 \<Rightarrow> (Inr (new_repair asset_id repair_data), db2))))"

subsection \<open>\<open>mark_asset_fixed\<close>\<close>

definition mark_asset_fixed :: "int \<Rightarrow> User \<Rightarrow> world \<Rightarrow> (error + Asset) \<times> world" where
  "mark_asset_fixed asset_id current_user db =
     (case query_asset db asset_id of
        None \<Rightarrow> (Inl (HTTPException 404 ''Asset not found''), db)
      | Some asset \<Rightarrow>
          if status asset \<noteq> Some REPAIR
          then (Inl (HTTPException 400 ''Asset is not in repair status''), db)
          else
            (let asset' = asset\<lparr>status := Some (if py_bool (assigned_to asset) then ACTIVE
                                                  else AVAILABLE)\<rparr>
             in case log_action db (u_id current_user) ''MARK_FIXED'' ''asset'' (Some (id' asset))
                       None (Some (id' asset)) of
                  Inl e \<Rightarrow> (Inl e, db)
                | Inr db1 \<Rightarrow> (Inr asset', db1\<lparr>assets := save_asset asset' (assets db1)\<rparr>)))"

section \<open>Auxiliary definitions for the proofs\<close>

text \<open>
  The closed forms the proofs use: the days left of an asset, the entry the loop appends
  for it, and a batch as the entries of the fetched assets that are due for a type.
\<close>

definition days_left :: "date \<Rightarrow> Asset \<Rightarrow> int" where
  "days_left today a = (case warranty_end a of None \<Rightarrow> 0 | Some wend \<Rightarrow> wend - today)"

definition entry :: "world \<Rightarrow> date \<Rightarrow> Asset \<Rightarrow> Asset \<times> asset_data" where
  "entry db today a =
     (a, mk_asset_data db a (case warranty_end a of None \<Rightarrow> 0 | Some wend \<Rightarrow> wend) (days_left today a))"

text \<open>
  The day range of a tier and the lookback the loop passes for it, by notification type
  (\<open>expired\<close>, \<open>30_day\<close>, \<open>90_day\<close>).
\<close>

definition tier_range :: "string \<Rightarrow> int \<Rightarrow> bool" where
  "tier_range ntype days =
     (if ntype = ''expired'' then days < 0
      else if ntype = ''30_day'' then 0 \<le> days \<and> days \<le> 30
      else 30 < days \<and> days \<le> 90)"

definition cooldown_days :: "string \<Rightarrow> int" where
  "cooldown_days ntype = (if ntype = ''expired'' then 30 else if ntype = ''30_day'' then 7 else 14)"

definition alert_due :: "world \<Rightarrow> date \<Rightarrow> datetime \<Rightarrow> string \<Rightarrow> Asset \<Rightarrow> bool" where
  "alert_due db today utcnow ntype a =
     (tier_range ntype (days_left today a) \<and>
      \<not> check_warranty_already_notified db utcnow (id' a) ntype (cooldown_days ntype))"

definition batch_of :: "world \<Rightarrow> date \<Rightarrow> datetime \<Rightarrow> string \<Rightarrow> Asset list \<Rightarrow> batch" where
  "batch_of db today utcnow ntype as = map (entry db today) (filter (alert_due db today utcnow ntype) as)"

text \<open>The entry of an asset in the summary, and the history rows written for a batch.\<close>

definition info_of :: "world \<Rightarrow> date \<Rightarrow> Asset \<Rightarrow> asset_info" where
  "info_of db today a =
     mk_asset_info db a (case warranty_end a of None \<Rightarrow> 0 | Some wend \<Rightarrow> wend) (days_left today a)"

definition history_rows :: "datetime \<Rightarrow> string \<Rightarrow> batch \<Rightarrow> WarrantyNotification list" where
  "history_rows now ntype items =
     map (\<lambda>(asset, _). \<lparr>n_asset_id = id' asset, notification_type = ntype, sent_at = now\<rparr>) items"

text \<open>Concrete data for the examples.\<close>

definition sample_asset :: "int \<Rightarrow> date option \<Rightarrow> AssetStatus option \<Rightarrow> int option \<Rightarrow> Asset" where
  "sample_asset i wend st emp =
     \<lparr>id' = i, asset_tag = [76, 65, 80, 45, 48, 48, 49], asset_type = LAPTOP, name = [68, 101, 108, 108],
      manufacturer = None, model = None, serial_number = None, purchase_date = None,
      purchase_price = None, warranty_end = wend, vendor = None, po_number = None,
      status = st, assigned_to = emp, assigned_date = None, decommission_date = None,
      decommission_reason = None, notes' = None, location = None\<rparr>"

definition sample_admin :: User where
  "sample_admin = \<lparr>u_id = 1, u_email = [97, 64, 98], u_username = [97], u_full_name = [65],
                    u_role = ADMIN, u_is_active = True\<rparr>"

definition sample_world :: "Asset list \<Rightarrow> WarrantyNotification list \<Rightarrow> world" where
  "sample_world as hist =
     \<lparr>assets = as, employees = [], users = [sample_admin], repairs = [], audit_logs = [],
      warranty_notifications = hist, mail_log = []\<rparr>"

text \<open>
  The invariant of the data model: \<open>assigned_to\<close> is set exactly when the status is
  \<open>active\<close>, except that an asset in \<open>repair\<close> may keep its assignment.
\<close>

definition assignment_invariant :: "Asset \<Rightarrow> bool" where
  "assignment_invariant a =
     (status a = Some REPAIR \<or> ((assigned_to a \<noteq> None) = (status a = Some ACTIVE)))"

text \<open>
  A request body of \<open>update_asset\<close> that sets no field.
\<close>

definition no_update :: AssetUpdate where
  "no_update =
     \<lparr>up_asset_type = None, up_name = None, up_manufacturer = None, up_model = None,
      up_serial_number = None, up_purchase_date = None, up_purchase_price = None,
      up_warranty_end = None, up_vendor = None, up_po_number = None, up_notes = None,
      up_location = None, up_status = None\<rparr>"

definition sample_repair :: RepairCreate where
  "sample_repair =
     \<lparr>rc_repair_date = 100, rc_issue_description = [102, 97, 110], rc_resolution = None,
      rc_cost = 0, rc_is_warranty_repair = False, rc_vendor = None, rc_ticket_number = None,
      rc_asset_id = 1\<rparr>"

section \<open>The warranty classifier\<close>

lemma find_not_None: "find P xs \<noteq> None \<longleftrightarrow> (\<exists>x \<in> set xs. P x)"
  by (induction xs) auto

lemma already_notified_iff:
  "check_warranty_already_notified db utcnow i t d \<longleftrightarrow>
     (\<exists>n \<in> set (warranty_notifications db).
        n_asset_id n = i \<and> notification_type n = t \<and> utcnow - timedelta_days d \<le> sent_at n)"
  unfolding check_warranty_already_notified_def Let_def find_not_None by blast

lemma classify_loop_batches:
  "list_all (\<lambda>a. warranty_end a \<noteq> None) as \<Longrightarrow>
   classify_loop db today utcnow as (e90, e30, ex) =
     Inr (e90 @ batch_of db today utcnow ''90_day'' as,
          e30 @ batch_of db today utcnow ''30_day'' as,
          ex @ batch_of db today utcnow ''expired'' as)"
proof (induction as arbitrary: e90 e30 ex)
  case Nil
  then show ?case by (simp add: batch_of_def)
next
  case (Cons a as)
  from Cons.prems obtain wend where w: "warranty_end a = Some wend" by auto
  from Cons.prems have rest: "list_all (\<lambda>a. warranty_end a \<noteq> None) as" by simp
  show ?case
    using w Cons.IH[OF rest]
    by (simp add: classify_step_def batch_of_def alert_due_def tier_range_def cooldown_days_def days_left_def entry_def Let_def)
qed

lemma candidates_have_warranty:
  "list_all (\<lambda>a. warranty_end a \<noteq> None) (warranty_candidates db)"
  by (simp add: warranty_candidates_def list_all_iff)

lemma classify_all_batches:
  "classify_all db today utcnow =
     Inr (batch_of db today utcnow ''90_day'' (warranty_candidates db),
          batch_of db today utcnow ''30_day'' (warranty_candidates db),
          batch_of db today utcnow ''expired'' (warranty_candidates db))"
  using classify_loop_batches[OF candidates_have_warranty, where ?e90.0 = "[]" and ?e30.0 = "[]" and ex = "[]"]
  by (simp add: classify_all_def)

lemma entry_Some:
  "warranty_end a = Some wend \<Longrightarrow> entry db today a = (a, mk_asset_data db a wend (wend - today))"
  by (simp add: entry_def days_left_def)

lemma item_in_batch:
  assumes "a \<in> set as" and "warranty_end a = Some wend"
  shows "(a, mk_asset_data db a wend (wend - today)) \<in> set (batch_of db today utcnow ntype as)
           \<longleftrightarrow> alert_due db today utcnow ntype a"
proof
  assume "(a, mk_asset_data db a wend (wend - today)) \<in> set (batch_of db today utcnow ntype as)"
  then obtain b where b: "b \<in> set as" "alert_due db today utcnow ntype b"
      and eq: "entry db today b = (a, mk_asset_data db a wend (wend - today))"
    by (auto simp: batch_of_def)
  from eq have "b = a" by (simp add: entry_def)
  with b show "alert_due db today utcnow ntype a" by simp
next
  assume "alert_due db today utcnow ntype a"
  with assms have "entry db today a \<in> set (batch_of db today utcnow ntype as)"
    by (simp add: batch_of_def)
  with assms(2) show "(a, mk_asset_data db a wend (wend - today)) \<in> set (batch_of db today utcnow ntype as)"
    by (simp add: entry_Some)
qed

lemma batch_member_entry:
  "(a, data) \<in> set (batch_of db today utcnow ntype as) \<Longrightarrow>
     a \<in> set as \<and> alert_due db today utcnow ntype a \<and> (a, data) = entry db today a"
  by (auto simp: batch_of_def entry_def)

lemma candidate_mem:
  "a \<in> set (warranty_candidates db) \<longleftrightarrow>
     a \<in> set (assets db) \<and> status a \<noteq> None \<and> status a \<noteq> Some DECOMMISSIONED \<and> warranty_end a \<noteq> None"
  by (simp add: warranty_candidates_def)

text \<open>
  Claim C1. An asset the query fetches (its status is one of the three that are not
  decommissioned, and it has a \<open>warranty_end\<close>) is classified by
  \<open>days = warranty_end - today\<close>: the run always returns its three batches, the
  asset's entry is in the expired batch exactly when \<open>days < 0\<close>, in the 30-day batch
  exactly when \<open>0 \<le> days \<le> 30\<close>, in the 90-day batch exactly when
  \<open>31 \<le> days \<le> 90\<close> (each time unless that tier's alert was sent recently), every
  entry of the asset carries \<open>days_remaining = days\<close>, and with \<open>days > 90\<close> the
  asset is in no batch.
\<close>

theorem warranty_tiers:
  assumes "a \<in> set (assets db)" and "status a = Some s" and "s \<noteq> DECOMMISSIONED"
    and "warranty_end a = Some wend"
  shows "\<exists>expiring_90 expiring_30 expired.
     classify_all db today utcnow = Inr (expiring_90, expiring_30, expired) \<and>
     days_remaining (mk_asset_data db a wend (wend - today)) = wend - today \<and>
     ((a, mk_asset_data db a wend (wend - today)) \<in> set expired \<longleftrightarrow>
        wend - today < 0 \<and> \<not> check_warranty_already_notified db utcnow (id' a) ''expired'' 30) \<and>
     ((a, mk_asset_data db a wend (wend - today)) \<in> set expiring_30 \<longleftrightarrow>
        0 \<le> wend - today \<and> wend - today \<le> 30 \<and>
        \<not> check_warranty_already_notified db utcnow (id' a) ''30_day'' 7) \<and>
     ((a, mk_asset_data db a wend (wend - today)) \<in> set expiring_90 \<longleftrightarrow>
        31 \<le> wend - today \<and> wend - today \<le> 90 \<and>
        \<not> check_warranty_already_notified db utcnow (id' a) ''90_day'' 14) \<and>
     (\<forall>data. (a, data) \<in> set (expired @ expiring_30 @ expiring_90) \<longrightarrow>
        data = mk_asset_data db a wend (wend - today)) \<and>
     (90 < wend - today \<longrightarrow> a \<notin> fst ` set (expired @ expiring_30 @ expiring_90))"
proof -
  let ?cs = "warranty_candidates db"
  let ?item = "(a, mk_asset_data db a wend (wend - today))"
  have cand: "a \<in> set ?cs" using assms by (simp add: candidate_mem)
  have dl: "days_left today a = wend - today" using assms(4) by (simp add: days_left_def)
  have ex: "?item \<in> set (batch_of db today utcnow ''expired'' ?cs) \<longleftrightarrow>
        wend - today < 0 \<and> \<not> check_warranty_already_notified db utcnow (id' a) ''expired'' 30"
    using item_in_batch[OF cand assms(4)] dl by (simp add: alert_due_def tier_range_def cooldown_days_def)
  have e30: "?item \<in> set (batch_of db today utcnow ''30_day'' ?cs) \<longleftrightarrow>
        0 \<le> wend - today \<and> wend - today \<le> 30 \<and>
        \<not> check_warranty_already_notified db utcnow (id' a) ''30_day'' 7"
    using item_in_batch[OF cand assms(4)] dl by (simp add: alert_due_def tier_range_def cooldown_days_def)
  have e90: "?item \<in> set (batch_of db today utcnow ''90_day'' ?cs) \<longleftrightarrow>
        31 \<le> wend - today \<and> wend - today \<le> 90 \<and>
        \<not> check_warranty_already_notified db utcnow (id' a) ''90_day'' 14"
    using item_in_batch[OF cand assms(4)] dl by (auto simp: alert_due_def tier_range_def cooldown_days_def)
  have det: "data = mk_asset_data db a wend (wend - today)"
    if "(a, data) \<in> set (batch_of db today utcnow ntype ?cs)" for data ntype
    using batch_member_entry[OF that] assms(4) by (simp add: entry_Some)
  have none: "a \<notin> fst ` set (batch_of db today utcnow ntype ?cs)" if "90 < wend - today" for ntype
  proof
    assume "a \<in> fst ` set (batch_of db today utcnow ntype ?cs)"
    then obtain data where "(a, data) \<in> set (batch_of db today utcnow ntype ?cs)" by auto
    from batch_member_entry[OF this] have "alert_due db today utcnow ntype a" by simp
    with that dl show False by (simp add: alert_due_def tier_range_def split: if_splits)
  qed
  show ?thesis
    unfolding classify_all_batches
    using ex e30 e90 det none by (auto simp: mk_asset_data_def)
qed

text \<open>
  The boundary: \<open>warranty_end = today + 30\<close> is in the 30-day batch with
  \<open>days_remaining = 30\<close>, \<open>warranty_end = today + 31\<close> in the 90-day batch.
\<close>

theorem warranty_tiers_witness:
  "(\<exists>expiring_90 expiring_30 expired.
      classify_all (sample_world [sample_asset 1 (Some 130) (Some AVAILABLE) None] []) 100 0 =
        Inr (expiring_90, expiring_30, expired) \<and>
      (sample_asset 1 (Some 130) (Some AVAILABLE) None,
       mk_asset_data (sample_world [sample_asset 1 (Some 130) (Some AVAILABLE) None] [])
         (sample_asset 1 (Some 130) (Some AVAILABLE) None) 130 30) \<in> set expiring_30) \<and>
   (\<exists>expiring_90 expiring_30 expired.
      classify_all (sample_world [sample_asset 2 (Some 131) (Some ACTIVE) None] []) 100 0 =
        Inr (expiring_90, expiring_30, expired) \<and>
      (sample_asset 2 (Some 131) (Some ACTIVE) None,
       mk_asset_data (sample_world [sample_asset 2 (Some 131) (Some ACTIVE) None] [])
         (sample_asset 2 (Some 131) (Some ACTIVE) None) 131 31) \<in> set expiring_90)"
proof -
  let ?A = "sample_asset 1 (Some 130) (Some AVAILABLE) None"
  let ?B = "sample_asset 2 (Some 131) (Some ACTIVE) None"
  have n: "\<not> check_warranty_already_notified (sample_world as []) 0 i t d" for as i t d
    by (simp add: check_warranty_already_notified_def sample_world_def)
  have a: "sample_asset i w st e \<in> set (assets (sample_world [sample_asset i w st e] []))"
      "status (sample_asset i w st e) = st" "warranty_end (sample_asset i w st e) = w" for i w st e
    by (simp_all add: sample_world_def sample_asset_def)
  have ne: "AVAILABLE \<noteq> DECOMMISSIONED" "ACTIVE \<noteq> DECOMMISSIONED" by simp_all
  from warranty_tiers[OF a(1) a(2) ne(1) a(3), where today = 100 and utcnow = 0]
  obtain p90 p30 px where
    p: "classify_all (sample_world [?A] []) 100 0 = Inr (p90, p30, px)"
       "((?A, mk_asset_data (sample_world [?A] []) ?A 130 (130 - 100)) \<in> set p30) =
          (0 \<le> (130::int) - 100 \<and> (130::int) - 100 \<le> 30 \<and>
           \<not> check_warranty_already_notified (sample_world [?A] []) 0 (id' ?A) ''30_day'' 7)"
    by blast
  from warranty_tiers[OF a(1) a(2) ne(2) a(3), where today = 100 and utcnow = 0]
  obtain q90 q30 qx where
    q: "classify_all (sample_world [?B] []) 100 0 = Inr (q90, q30, qx)"
       "((?B, mk_asset_data (sample_world [?B] []) ?B 131 (131 - 100)) \<in> set q90) =
          (31 \<le> (131::int) - 100 \<and> (131::int) - 100 \<le> 90 \<and>
           \<not> check_warranty_already_notified (sample_world [?B] []) 0 (id' ?B) ''90_day'' 14)"
    by blast
  from p(2) n have p': "(?A, mk_asset_data (sample_world [?A] []) ?A 130 30) \<in> set p30" by simp
  from q(2) n have q': "(?B, mk_asset_data (sample_world [?B] []) ?B 131 31) \<in> set q90" by simp
  from p(1) p' q(1) q' show ?thesis by blast
qed

text \<open>
  Claim C2. For a fetched asset whose days fall in a tier, the run leaves the asset out of
  that tier's batch (no mail, no history row for it) exactly when the history holds a row
  of the same asset and the tier's type whose \<open>sent_at\<close> lies in the window of 30
  (\<open>expired\<close>), 7 (\<open>30_day\<close>) or 14 (\<open>90_day\<close>) days that ends now. History rows
  are stamped when they are inserted, so none is later than the clock: the query itself
  only tests the lower end of the window.
\<close>

theorem cooldown_suppression:
  assumes "a \<in> set (assets db)" and "status a = Some s" and "s \<noteq> DECOMMISSIONED"
    and "warranty_end a = Some wend"
    and "\<forall>n \<in> set (warranty_notifications db). sent_at n \<le> utcnow"
    and "classify_all db today utcnow = Inr (expiring_90, expiring_30, expired)"
  shows
    "(wend - today < 0 \<longrightarrow>
        ((a, mk_asset_data db a wend (wend - today)) \<notin> set expired \<longleftrightarrow>
         (\<exists>n \<in> set (warranty_notifications db).
            n_asset_id n = id' a \<and> notification_type n = ''expired'' \<and>
            utcnow - timedelta_days 30 \<le> sent_at n \<and> sent_at n \<le> utcnow))) \<and>
     (0 \<le> wend - today \<and> wend - today \<le> 30 \<longrightarrow>
        ((a, mk_asset_data db a wend (wend - today)) \<notin> set expiring_30 \<longleftrightarrow>
         (\<exists>n \<in> set (warranty_notifications db).
            n_asset_id n = id' a \<and> notification_type n = ''30_day'' \<and>
            utcnow - timedelta_days 7 \<le> sent_at n \<and> sent_at n \<le> utcnow))) \<and>
     (31 \<le> wend - today \<and> wend - today \<le> 90 \<longrightarrow>
        ((a, mk_asset_data db a wend (wend - today)) \<notin> set expiring_90 \<longleftrightarrow>
         (\<exists>n \<in> set (warranty_notifications db).
            n_asset_id n = id' a \<and> notification_type n = ''90_day'' \<and>
            utcnow - timedelta_days 14 \<le> sent_at n \<and> sent_at n \<le> utcnow)))"
proof -
  let ?cs = "warranty_candidates db"
  have cand: "a \<in> set ?cs" using assms(1-4) by (simp add: candidate_mem)
  have dl: "days_left today a = wend - today" using assms(4) by (simp add: days_left_def)
  have b: "expiring_90 = batch_of db today utcnow ''90_day'' ?cs"
          "expiring_30 = batch_of db today utcnow ''30_day'' ?cs"
          "expired = batch_of db today utcnow ''expired'' ?cs"
    using assms(6) by (simp_all add: classify_all_batches)
  have win: "check_warranty_already_notified db utcnow i t d \<longleftrightarrow>
       (\<exists>n \<in> set (warranty_notifications db). n_asset_id n = i \<and> notification_type n = t \<and>
          utcnow - timedelta_days d \<le> sent_at n \<and> sent_at n \<le> utcnow)" for i t d
    unfolding already_notified_iff using assms(5) by blast
  have m: "(a, mk_asset_data db a wend (wend - today)) \<in> set (batch_of db today utcnow t ?cs)
             \<longleftrightarrow> alert_due db today utcnow t a" for t
    by (rule item_in_batch[OF cand assms(4)])
  have ex: "wend - today < 0 \<Longrightarrow> alert_due db today utcnow ''expired'' a \<longleftrightarrow>
              \<not> check_warranty_already_notified db utcnow (id' a) ''expired'' 30"
    using dl by (simp add: alert_due_def tier_range_def cooldown_days_def)
  have e30: "0 \<le> wend - today \<Longrightarrow> wend - today \<le> 30 \<Longrightarrow> alert_due db today utcnow ''30_day'' a \<longleftrightarrow>
              \<not> check_warranty_already_notified db utcnow (id' a) ''30_day'' 7"
    using dl by (simp add: alert_due_def tier_range_def cooldown_days_def)
  have e90: "31 \<le> wend - today \<Longrightarrow> wend - today \<le> 90 \<Longrightarrow> alert_due db today utcnow ''90_day'' a \<longleftrightarrow>
              \<not> check_warranty_already_notified db utcnow (id' a) ''90_day'' 14"
    using dl by (simp add: alert_due_def tier_range_def cooldown_days_def)
  have px: "wend - today < 0 \<Longrightarrow> (a, mk_asset_data db a wend (wend - today)) \<notin> set expired \<longleftrightarrow>
         (\<exists>n \<in> set (warranty_notifications db).
            n_asset_id n = id' a \<and> notification_type n = ''expired'' \<and>
            utcnow - timedelta_days 30 \<le> sent_at n \<and> sent_at n \<le> utcnow)"
    unfolding b m using ex win[of "id' a" "''expired''" 30] by blast
  have p30: "0 \<le> wend - today \<Longrightarrow> wend - today \<le> 30 \<Longrightarrow>
        (a, mk_asset_data db a wend (wend - today)) \<notin> set expiring_30 \<longleftrightarrow>
         (\<exists>n \<in> set (warranty_notifications db).
            n_asset_id n = id' a \<and> notification_type n = ''30_day'' \<and>
            utcnow - timedelta_days 7 \<le> sent_at n \<and> sent_at n \<le> utcnow)"
    unfolding b m using e30 win[of "id' a" "''30_day''" 7] by blast
  have p90: "31 \<le> wend - today \<Longrightarrow> wend - today \<le> 90 \<Longrightarrow>
        (a, mk_asset_data db a wend (wend - today)) \<notin> set expiring_90 \<longleftrightarrow>
         (\<exists>n \<in> set (warranty_notifications db).
            n_asset_id n = id' a \<and> notification_type n = ''90_day'' \<and>
            utcnow - timedelta_days 14 \<le> sent_at n \<and> sent_at n \<le> utcnow)"
    unfolding b m using e90 win[of "id' a" "''90_day''" 14] by blast
  from px p30 p90 show ?thesis by blast
qed

text \<open>
  A history row of the asset, of type \<open>expired\<close> and ten days old, keeps an asset
  whose warranty ended five days ago out of the expired batch.
\<close>

theorem cooldown_suppression_witness:
  "\<exists>expiring_90 expiring_30 expired.
      classify_all
        (sample_world [sample_asset 1 (Some 95) (Some AVAILABLE) None]
           [\<lparr>n_asset_id = 1, notification_type = ''expired'', sent_at = timedelta_days 21\<rparr>])
        100 (timedelta_days 31) = Inr (expiring_90, expiring_30, expired) \<and>
      (sample_asset 1 (Some 95) (Some AVAILABLE) None,
       mk_asset_data
         (sample_world [sample_asset 1 (Some 95) (Some AVAILABLE) None]
           [\<lparr>n_asset_id = 1, notification_type = ''expired'', sent_at = timedelta_days 21\<rparr>])
         (sample_asset 1 (Some 95) (Some AVAILABLE) None) 95 (- 5)) \<notin> set expired"
proof -
  let ?A = "sample_asset 1 (Some 95) (Some AVAILABLE) None"
  let ?W = "sample_world [?A]
              [\<lparr>n_asset_id = 1, notification_type = ''expired'', sent_at = timedelta_days 21\<rparr>]"
  have a: "?A \<in> set (assets ?W)" "status ?A = Some AVAILABLE" "AVAILABLE \<noteq> DECOMMISSIONED"
      "warranty_end ?A = Some 95"
    by (simp_all add: sample_world_def sample_asset_def)
  have h: "\<forall>n \<in> set (warranty_notifications ?W). sent_at n \<le> timedelta_days 31"
    by (simp add: sample_world_def timedelta_days_def)
  have r: "\<exists>n \<in> set (warranty_notifications ?W).
            n_asset_id n = id' ?A \<and> notification_type n = ''expired'' \<and>
            timedelta_days 31 - timedelta_days 30 \<le> sent_at n \<and> sent_at n \<le> timedelta_days 31"
    by (simp add: sample_world_def sample_asset_def timedelta_days_def)
  obtain e90 e30 ex where c: "classify_all ?W 100 (timedelta_days 31) = Inr (e90, e30, ex)"
    using classify_all_batches by blast
  from cooldown_suppression[OF a h c] r
  have "(?A, mk_asset_data ?W ?A 95 (95 - 100)) \<notin> set ex" by simp
  then have "(?A, mk_asset_data ?W ?A 95 (- 5)) \<notin> set ex" by simp
  with c show ?thesis by blast
qed

subsection \<open>The state after a run\<close>

lemma foldl_record_notification:
  "foldl (record_notification now t) db ids =
     db\<lparr>warranty_notifications := warranty_notifications db @
          map (\<lambda>i. \<lparr>n_asset_id = i, notification_type = t, sent_at = now\<rparr>) ids\<rparr>"
  by (induction ids arbitrary: db) (simp_all add: record_notification_def)

lemma send_batch_eq:
  "send_batch send now admins items alert t db =
     (if items = [] then db
      else db\<lparr>mail_log := mail_log db @ [WarrantyMail admins (map snd items) alert],
              warranty_notifications := warranty_notifications db @
                (if send admins (map snd items) alert then history_rows now t items else [])\<rparr>)"
  by (simp add: send_batch_def foldl_record_notification history_rows_def Let_def
        case_prod_unfold comp_def)

lemma check_and_send_eq:
  "check_and_send_warranty_alerts send today now db =
     (let admins = get_admin_emails db;
          expired = batch_of db today now ''expired'' (warranty_candidates db);
          expiring_30 = batch_of db today now ''30_day'' (warranty_candidates db);
          expiring_90 = batch_of db today now ''90_day'' (warranty_candidates db)
      in if admins = [] then db
         else db\<lparr>
           mail_log := mail_log db
             @ (if expired \<noteq> [] then [WarrantyMail admins (map snd expired) ''expired''] else [])
             @ (if expiring_30 \<noteq> []
                then [WarrantyMail admins (map snd expiring_30) ''expiring_30''] else [])
             @ (if expiring_90 \<noteq> []
                then [WarrantyMail admins (map snd expiring_90) ''expiring_90''] else []),
           warranty_notifications := warranty_notifications db
             @ (if expired \<noteq> [] \<and> send admins (map snd expired) ''expired''
                then history_rows now ''expired'' expired else [])
             @ (if expiring_30 \<noteq> [] \<and> send admins (map snd expiring_30) ''expiring_30''
                then history_rows now ''30_day'' expiring_30 else [])
             @ (if expiring_90 \<noteq> [] \<and> send admins (map snd expiring_90) ''expiring_90''
                then history_rows now ''90_day'' expiring_90 else [])\<rparr>)"
  by (simp add: check_and_send_warranty_alerts_def classify_all_batches Let_def send_batch_eq)

text \<open>
  Claim C4. With the batches the classification returns, the state after a run is the
  state before it with, per batch in the order expired, 30-day, 90-day: one mail call if
  the batch is not empty (whatever the outcome of the calls before it), and the rows
  \<open>(asset_id, type, sent_at = now)\<close> of all its assets if and only if that call
  reported success; a batch whose call fails adds no row. Without recipients the run
  changes nothing.
\<close>

theorem history_written_iff_delivered:
  assumes "classify_all db today now = Inr (expiring_90, expiring_30, expired)"
  shows
    "check_and_send_warranty_alerts send today now db =
       (if get_admin_emails db = [] then db
        else db\<lparr>
          mail_log := mail_log db
            @ (if expired \<noteq> []
               then [WarrantyMail (get_admin_emails db) (map snd expired) ''expired''] else [])
            @ (if expiring_30 \<noteq> []
               then [WarrantyMail (get_admin_emails db) (map snd expiring_30) ''expiring_30''] else [])
            @ (if expiring_90 \<noteq> []
               then [WarrantyMail (get_admin_emails db) (map snd expiring_90) ''expiring_90''] else []),
          warranty_notifications := warranty_notifications db
            @ (if expired \<noteq> [] \<and> send (get_admin_emails db) (map snd expired) ''expired''
               then history_rows now ''expired'' expired else [])
            @ (if expiring_30 \<noteq> [] \<and> send (get_admin_emails db) (map snd expiring_30) ''expiring_30''
               then history_rows now ''30_day'' expiring_30 else [])
            @ (if expiring_90 \<noteq> [] \<and> send (get_admin_emails db) (map snd expiring_90) ''expiring_90''
               then history_rows now ''90_day'' expiring_90 else [])\<rparr>)"
proof -
  from assms have
    "expired = batch_of db today now ''expired'' (warranty_candidates db)"
    "expiring_30 = batch_of db today now ''30_day'' (warranty_candidates db)"
    "expiring_90 = batch_of db today now ''90_day'' (warranty_candidates db)"
    by (simp_all add: classify_all_batches)
  then show ?thesis
    by (simp only: check_and_send_eq Let_def)
qed

text \<open>
  Two assets, one expired and one with ten days left; the mail for the expired batch
  fails, the one for the 30-day batch succeeds: only the second asset gets a row, and
  both batches were handed to the mail service.
\<close>

lemma sample_candidates:
  "warranty_candidates (sample_world [sample_asset 1 (Some 95) (Some AVAILABLE) None,
                                      sample_asset 2 (Some 110) (Some ACTIVE) None] []) =
     [sample_asset 1 (Some 95) (Some AVAILABLE) None, sample_asset 2 (Some 110) (Some ACTIVE) None]"
  by (simp add: warranty_candidates_def sample_world_def sample_asset_def)

theorem history_written_iff_delivered_witness:
  "warranty_notifications
     (check_and_send_warranty_alerts (\<lambda>emails data alert. alert \<noteq> ''expired'') 100 7
        (sample_world [sample_asset 1 (Some 95) (Some AVAILABLE) None,
                       sample_asset 2 (Some 110) (Some ACTIVE) None] [])) =
     [\<lparr>n_asset_id = 2, notification_type = ''30_day'', sent_at = 7\<rparr>] \<and>
   map (\<lambda>m. case m of WarrantyMail emails data alert \<Rightarrow> alert | _ \<Rightarrow> [])
     (mail_log
       (check_and_send_warranty_alerts (\<lambda>emails data alert. alert \<noteq> ''expired'') 100 7
          (sample_world [sample_asset 1 (Some 95) (Some AVAILABLE) None,
                         sample_asset 2 (Some 110) (Some ACTIVE) None] []))) =
     [''expired'', ''expiring_30'']"
proof -
  let ?A = "sample_asset 1 (Some 95) (Some AVAILABLE) None"
  let ?B = "sample_asset 2 (Some 110) (Some ACTIVE) None"
  let ?W = "sample_world [?A, ?B] []"
  have n: "\<not> check_warranty_already_notified ?W 7 i t d" for i t d
    by (simp add: check_warranty_already_notified_def sample_world_def)
  have d: "days_left 100 ?A = - 5" "days_left 100 ?B = 10"
    by (simp_all add: days_left_def sample_asset_def)
  have b: "batch_of ?W 100 7 ''expired'' (warranty_candidates ?W) = [entry ?W 100 ?A]"
          "batch_of ?W 100 7 ''30_day'' (warranty_candidates ?W) = [entry ?W 100 ?B]"
          "batch_of ?W 100 7 ''90_day'' (warranty_candidates ?W) = []"
    unfolding sample_candidates
    by (simp_all add: batch_of_def alert_due_def tier_range_def n d)
  have c: "classify_all ?W 100 7 = Inr ([], [entry ?W 100 ?B], [entry ?W 100 ?A])"
    unfolding classify_all_batches b by simp
  have adm: "get_admin_emails ?W \<noteq> []"
    by (simp add: get_admin_emails_def sample_world_def sample_admin_def)
  have i: "id' ?B = 2" by (simp add: sample_asset_def)
  show ?thesis
    unfolding history_written_iff_delivered[OF c]
    using adm by (simp add: history_rows_def entry_def i) (simp add: sample_world_def)
qed

subsection \<open>Running the job twice\<close>

lemma cooldown_ge_7: "timedelta_days 7 \<le> timedelta_days (cooldown_days t)"
  by (simp add: cooldown_days_def timedelta_days_def)

lemma history_rows_mem:
  "(a, d) \<in> set items \<Longrightarrow>
     \<lparr>n_asset_id = id' a, notification_type = t, sent_at = now\<rparr> \<in> set (history_rows now t items)"
  by (force simp: history_rows_def)

lemma history_rows_Nil: "history_rows now t [] = []"
  by (simp add: history_rows_def)

lemma run_tables:
  "assets (check_and_send_warranty_alerts send today now db) = assets db"
  "employees (check_and_send_warranty_alerts send today now db) = employees db"
  "users (check_and_send_warranty_alerts send today now db) = users db"
  by (simp_all add: check_and_send_eq Let_def)

lemma run_history_all_sent:
  assumes "\<forall>emails data alert. send emails data alert" and "get_admin_emails db \<noteq> []"
  shows "warranty_notifications (check_and_send_warranty_alerts send today now db) =
     warranty_notifications db
     @ history_rows now ''expired'' (batch_of db today now ''expired'' (warranty_candidates db))
     @ history_rows now ''30_day'' (batch_of db today now ''30_day'' (warranty_candidates db))
     @ history_rows now ''90_day'' (batch_of db today now ''90_day'' (warranty_candidates db))"
  using assms by (simp add: check_and_send_eq Let_def history_rows_Nil)

lemma still_suppressed:
  assumes adm: "get_admin_emails db \<noteq> []"
    and s1: "\<forall>emails data alert. send1 emails data alert"
    and w: "now2 \<le> now1 + timedelta_days 7"
    and st: "\<forall>n \<in> set (warranty_notifications db).
         now1 - timedelta_days (cooldown_days (notification_type n)) \<le> sent_at n \<longrightarrow>
         now2 - timedelta_days (cooldown_days (notification_type n)) \<le> sent_at n"
    and a: "a \<in> set (warranty_candidates db)"
    and t: "t = ''expired'' \<or> t = ''30_day'' \<or> t = ''90_day''"
    and r: "tier_range t (days_left today a)"
  shows "check_warranty_already_notified (check_and_send_warranty_alerts send1 today now1 db)
           now2 (id' a) t (cooldown_days t)"
proof (cases "alert_due db today now1 t a")
  case True
  with a have "entry db today a \<in> set (batch_of db today now1 t (warranty_candidates db))"
    by (simp add: batch_of_def)
  then have "(a, snd (entry db today a)) \<in> set (batch_of db today now1 t (warranty_candidates db))"
    by (simp add: entry_def)
  then have "\<lparr>n_asset_id = id' a, notification_type = t, sent_at = now1\<rparr>
       \<in> set (history_rows now1 t (batch_of db today now1 t (warranty_candidates db)))"
    by (rule history_rows_mem)
  with t have row: "\<lparr>n_asset_id = id' a, notification_type = t, sent_at = now1\<rparr>
       \<in> set (warranty_notifications (check_and_send_warranty_alerts send1 today now1 db))"
    unfolding run_history_all_sent[OF s1 adm] by auto
  have "now2 - timedelta_days (cooldown_days t) \<le> now1"
    using w cooldown_ge_7[of t] by linarith
  with row show ?thesis
    unfolding already_notified_iff by force
next
  case False
  with r have "check_warranty_already_notified db now1 (id' a) t (cooldown_days t)"
    by (simp add: alert_due_def)
  then obtain n where n: "n \<in> set (warranty_notifications db)" "n_asset_id n = id' a"
      "notification_type n = t" "now1 - timedelta_days (cooldown_days t) \<le> sent_at n"
    unfolding already_notified_iff by blast
  with st have "now2 - timedelta_days (cooldown_days t) \<le> sent_at n" by blast
  moreover from n(1) have "n \<in> set (warranty_notifications (check_and_send_warranty_alerts send1 today now1 db))"
    unfolding run_history_all_sent[OF s1 adm] by simp
  ultimately show ?thesis
    unfolding already_notified_iff using n(2,3) by blast
qed

text \<open>
  Claim C3. Let a first run at \<open>now1\<close> have all its deliveries succeed, and a
  second run happen on the same day (same \<open>today\<close>, same assets) inside the same
  cooldown window: at most 7 days (the shortest lookback) after the first, and no row
  that was inside its lookback at \<open>now1\<close> has left it at \<open>now2\<close>. Then the second
  run, whatever its mail service would answer, returns the state of the first run
  unchanged: no further mail call and no further history row.
\<close>

theorem rerun_idempotent:
  assumes s1: "\<forall>emails data alert. send1 emails data alert"
    and w: "now2 \<le> now1 + timedelta_days 7"
    and st: "\<forall>n \<in> set (warranty_notifications db).
         now1 - timedelta_days (cooldown_days (notification_type n)) \<le> sent_at n \<longrightarrow>
         now2 - timedelta_days (cooldown_days (notification_type n)) \<le> sent_at n"
  shows "check_and_send_warranty_alerts send2 today now2
           (check_and_send_warranty_alerts send1 today now1 db) =
         check_and_send_warranty_alerts send1 today now1 db"
proof (cases "get_admin_emails db = []")
  case True
  then have "check_and_send_warranty_alerts send today now db = db" for send now
    by (simp add: check_and_send_eq Let_def)
  then show ?thesis by simp
next
  case False
  let ?db1 = "check_and_send_warranty_alerts send1 today now1 db"
  have cs: "warranty_candidates ?db1 = warranty_candidates db"
    by (simp add: warranty_candidates_def run_tables)
  have none: "batch_of ?db1 today now2 t (warranty_candidates ?db1) = []"
    if t: "t = ''expired'' \<or> t = ''30_day'' \<or> t = ''90_day''" for t
  proof -
    have "\<not> alert_due ?db1 today now2 t a" if "a \<in> set (warranty_candidates db)" for a
      using still_suppressed[OF False s1 w st that t] by (auto simp: alert_due_def)
    then show ?thesis by (simp add: batch_of_def cs)
  qed
  show ?thesis
    by (simp add: check_and_send_eq[of send2 today now2 ?db1] none Let_def)
qed

text \<open>
  One asset whose warranty ended five days ago, no history: the first run writes the row
  \<open>(1, expired, now1)\<close>, and a second run an hour later changes nothing.
\<close>

lemma sample_single_expired:
  "classify_all (sample_world [sample_asset 1 (Some 95) (Some AVAILABLE) None] []) 100 now =
     Inr ([], [], [entry (sample_world [sample_asset 1 (Some 95) (Some AVAILABLE) None] []) 100
                     (sample_asset 1 (Some 95) (Some AVAILABLE) None)])"
proof -
  let ?A = "sample_asset 1 (Some 95) (Some AVAILABLE) None"
  let ?W = "sample_world [?A] []"
  have cs: "warranty_candidates ?W = [?A]"
    by (simp add: warranty_candidates_def sample_world_def sample_asset_def)
  have n: "\<not> check_warranty_already_notified ?W now i t d" for i t d
    by (simp add: check_warranty_already_notified_def sample_world_def)
  have d: "days_left 100 ?A = - 5" by (simp add: days_left_def sample_asset_def)
  show ?thesis
    unfolding classify_all_batches cs
    by (simp add: batch_of_def alert_due_def tier_range_def n d)
qed

theorem rerun_idempotent_witness:
  "check_and_send_warranty_alerts (\<lambda>emails data alert. False) 100 3600000000
     (check_and_send_warranty_alerts (\<lambda>emails data alert. True) 100 0
        (sample_world [sample_asset 1 (Some 95) (Some AVAILABLE) None] [])) =
   check_and_send_warranty_alerts (\<lambda>emails data alert. True) 100 0
     (sample_world [sample_asset 1 (Some 95) (Some AVAILABLE) None] []) \<and>
   warranty_notifications
     (check_and_send_warranty_alerts (\<lambda>emails data alert. True) 100 0
        (sample_world [sample_asset 1 (Some 95) (Some AVAILABLE) None] [])) =
     [\<lparr>n_asset_id = 1, notification_type = ''expired'', sent_at = 0\<rparr>]"
proof -
  let ?A = "sample_asset 1 (Some 95) (Some AVAILABLE) None"
  let ?W = "sample_world [?A] []"
  have s1: "\<forall>emails data alert. (\<lambda>emails data alert. True) (emails :: pystr list) (data :: asset_data list) (alert :: string)"
    by simp
  have w: "(3600000000 :: int) \<le> 0 + timedelta_days 7" by (simp add: timedelta_days_def)
  have st: "\<forall>n \<in> set (warranty_notifications ?W).
         0 - timedelta_days (cooldown_days (notification_type n)) \<le> sent_at n \<longrightarrow>
         3600000000 - timedelta_days (cooldown_days (notification_type n)) \<le> sent_at n"
    by (simp add: sample_world_def)
  have idem: "check_and_send_warranty_alerts (\<lambda>emails data alert. False) 100 3600000000
     (check_and_send_warranty_alerts (\<lambda>emails data alert. True) 100 0 ?W) =
     check_and_send_warranty_alerts (\<lambda>emails data alert. True) 100 0 ?W"
    by (rule rerun_idempotent[OF s1 w st])
  have adm: "get_admin_emails ?W \<noteq> []"
    by (simp add: get_admin_emails_def sample_world_def sample_admin_def)
  have b: "batch_of ?W 100 0 ''expired'' (warranty_candidates ?W) = [entry ?W 100 ?A]"
          "batch_of ?W 100 0 ''30_day'' (warranty_candidates ?W) = []"
          "batch_of ?W 100 0 ''90_day'' (warranty_candidates ?W) = []"
    using sample_single_expired[of 0] unfolding classify_all_batches by simp_all
  have i: "id' ?A = 1" by (simp add: sample_asset_def)
  have h: "warranty_notifications (check_and_send_warranty_alerts (\<lambda>emails data alert. True) 100 0 ?W) =
     [\<lparr>n_asset_id = 1, notification_type = ''expired'', sent_at = 0\<rparr>]"
    unfolding check_and_send_eq Let_def b
    using adm by (simp add: history_rows_def entry_def i) (simp add: sample_world_def)
  from idem h show ?thesis by (rule conjI)
qed

subsection \<open>The dashboard summary\<close>

lemma summary_loop_lists:
  "list_all (\<lambda>a. warranty_end a \<noteq> None) as \<Longrightarrow>
   summary_loop db today as s =
     Inr \<lparr>s_expired = s_expired s @ map (info_of db today) (filter (\<lambda>a. days_left today a < 0) as),
          s_critical_30 = s_critical_30 s @
            map (info_of db today) (filter (\<lambda>a. 0 \<le> days_left today a \<and> days_left today a \<le> 30) as),
          s_warning_90 = s_warning_90 s @
            map (info_of db today) (filter (\<lambda>a. 30 < days_left today a \<and> days_left today a \<le> 90) as),
          s_active = s_active s @ map (info_of db today) (filter (\<lambda>a. 90 < days_left today a) as)\<rparr>"
proof (induction as arbitrary: s)
  case Nil
  then show ?case by simp
next
  case (Cons a as)
  from Cons.prems obtain wend where w: "warranty_end a = Some wend" by auto
  from Cons.prems have rest: "list_all (\<lambda>a. warranty_end a \<noteq> None) as" by simp
  show ?case
    using w by (simp add: Cons.IH[OF rest] summary_step_def info_of_def days_left_def Let_def)
qed

lemma get_warranty_summary_lists:
  "get_warranty_summary db today =
     Inr \<lparr>s_expired = map (info_of db today) (filter (\<lambda>a. days_left today a < 0) (warranty_candidates db)),
          s_critical_30 = map (info_of db today)
            (filter (\<lambda>a. 0 \<le> days_left today a \<and> days_left today a \<le> 30) (warranty_candidates db)),
          s_warning_90 = map (info_of db today)
            (filter (\<lambda>a. 30 < days_left today a \<and> days_left today a \<le> 90) (warranty_candidates db)),
          s_active = map (info_of db today) (filter (\<lambda>a. 90 < days_left today a) (warranty_candidates db))\<rparr>"
  by (simp add: get_warranty_summary_def summary_loop_lists[OF candidates_have_warranty])

lemma info_in_list:
  assumes "a \<in> set as"
  shows "info_of db today a \<in> set (map (info_of db today) (filter (\<lambda>a. P (days_left today a)) as))
           \<longleftrightarrow> P (days_left today a)"
proof
  assume "info_of db today a \<in> set (map (info_of db today) (filter (\<lambda>a. P (days_left today a)) as))"
  then obtain b where b: "P (days_left today b)" "info_of db today b = info_of db today a" by auto
  from b(2) have "ai_days_remaining (info_of db today b) = ai_days_remaining (info_of db today a)"
    by simp
  then have "days_left today b = days_left today a" by (simp add: info_of_def mk_asset_info_def)
  with b(1) show "P (days_left today a)" by simp
next
  assume "P (days_left today a)"
  with assms show "info_of db today a \<in> set (map (info_of db today) (filter (\<lambda>a. P (days_left today a)) as))"
    by simp
qed

text \<open>
  Claim C10. For a fetched asset and any \<open>today\<close>, the summary and the alert run
  compute the same \<open>days_remaining\<close>, and the asset's entry is in the expired, 30-day
  or 90-day batch of the run exactly when its entry is in the list \<open>expired\<close>,
  \<open>critical_30\<close> or \<open>warning_90\<close> of the summary and that tier's alert was not sent
  recently; the summary puts the asset in exactly one of its four lists, and an asset in
  \<open>active\<close> is in no batch.
\<close>

theorem summary_agrees_with_alerts:
  assumes "a \<in> set (assets db)" and "status a = Some s" and "s \<noteq> DECOMMISSIONED"
    and "warranty_end a = Some wend"
  shows "\<exists>S expiring_90 expiring_30 expired.
     get_warranty_summary db today = Inr S \<and>
     classify_all db today utcnow = Inr (expiring_90, expiring_30, expired) \<and>
     ai_days_remaining (mk_asset_info db a wend (wend - today)) =
       days_remaining (mk_asset_data db a wend (wend - today)) \<and>
     ((a, mk_asset_data db a wend (wend - today)) \<in> set expired \<longleftrightarrow>
        mk_asset_info db a wend (wend - today) \<in> set (s_expired S) \<and>
        \<not> check_warranty_already_notified db utcnow (id' a) ''expired'' 30) \<and>
     ((a, mk_asset_data db a wend (wend - today)) \<in> set expiring_30 \<longleftrightarrow>
        mk_asset_info db a wend (wend - today) \<in> set (s_critical_30 S) \<and>
        \<not> check_warranty_already_notified db utcnow (id' a) ''30_day'' 7) \<and>
     ((a, mk_asset_data db a wend (wend - today)) \<in> set expiring_90 \<longleftrightarrow>
        mk_asset_info db a wend (wend - today) \<in> set (s_warning_90 S) \<and>
        \<not> check_warranty_already_notified db utcnow (id' a) ''90_day'' 14) \<and>
     (mk_asset_info db a wend (wend - today) \<in> set (s_active S) \<longleftrightarrow>
        mk_asset_info db a wend (wend - today) \<notin> set (s_expired S) \<and>
        mk_asset_info db a wend (wend - today) \<notin> set (s_critical_30 S) \<and>
        mk_asset_info db a wend (wend - today) \<notin> set (s_warning_90 S)) \<and>
     (mk_asset_info db a wend (wend - today) \<in> set (s_active S) \<longrightarrow>
        a \<notin> fst ` set (expired @ expiring_30 @ expiring_90))"
proof -
  let ?cs = "warranty_candidates db"
  let ?item = "(a, mk_asset_data db a wend (wend - today))"
  let ?info = "mk_asset_info db a wend (wend - today)"
  have cand: "a \<in> set ?cs" using assms by (simp add: candidate_mem)
  have dl: "days_left today a = wend - today" using assms(4) by (simp add: days_left_def)
  have io: "info_of db today a = ?info" using assms(4) by (simp add: info_of_def days_left_def)
  have sx: "?info \<in> set (map (info_of db today) (filter (\<lambda>a. days_left today a < 0) ?cs))
              \<longleftrightarrow> wend - today < 0"
    using info_in_list[OF cand, of db today "\<lambda>d. d < 0"] io dl by simp
  have s30: "?info \<in> set (map (info_of db today)
               (filter (\<lambda>a. 0 \<le> days_left today a \<and> days_left today a \<le> 30) ?cs))
              \<longleftrightarrow> 0 \<le> wend - today \<and> wend - today \<le> 30"
    using info_in_list[OF cand, of db today "\<lambda>d. 0 \<le> d \<and> d \<le> 30"] io dl by simp
  have s90: "?info \<in> set (map (info_of db today)
               (filter (\<lambda>a. 30 < days_left today a \<and> days_left today a \<le> 90) ?cs))
              \<longleftrightarrow> 30 < wend - today \<and> wend - today \<le> 90"
    using info_in_list[OF cand, of db today "\<lambda>d. 30 < d \<and> d \<le> 90"] io dl by simp
  have sa: "?info \<in> set (map (info_of db today) (filter (\<lambda>a. 90 < days_left today a) ?cs))
              \<longleftrightarrow> 90 < wend - today"
    using info_in_list[OF cand, of db today "\<lambda>d. 90 < d"] io dl by simp
  have ex: "?item \<in> set (batch_of db today utcnow ''expired'' ?cs) \<longleftrightarrow>
        wend - today < 0 \<and> \<not> check_warranty_already_notified db utcnow (id' a) ''expired'' 30"
    using item_in_batch[OF cand assms(4)] dl by (simp add: alert_due_def tier_range_def cooldown_days_def)
  have e30: "?item \<in> set (batch_of db today utcnow ''30_day'' ?cs) \<longleftrightarrow>
        (0 \<le> wend - today \<and> wend - today \<le> 30) \<and>
        \<not> check_warranty_already_notified db utcnow (id' a) ''30_day'' 7"
    using item_in_batch[OF cand assms(4)] dl by (simp add: alert_due_def tier_range_def cooldown_days_def)
  have e90: "?item \<in> set (batch_of db today utcnow ''90_day'' ?cs) \<longleftrightarrow>
        (30 < wend - today \<and> wend - today \<le> 90) \<and>
        \<not> check_warranty_already_notified db utcnow (id' a) ''90_day'' 14"
    using item_in_batch[OF cand assms(4)] dl by (simp add: alert_due_def tier_range_def cooldown_days_def)
  have none: "a \<notin> fst ` set (batch_of db today utcnow ntype ?cs)" if "90 < wend - today" for ntype
  proof
    assume "a \<in> fst ` set (batch_of db today utcnow ntype ?cs)"
    then obtain data where "(a, data) \<in> set (batch_of db today utcnow ntype ?cs)" by auto
    from batch_member_entry[OF this] have "alert_due db today utcnow ntype a" by simp
    with that dl show False by (simp add: alert_due_def tier_range_def split: if_splits)
  qed
  have act: "(90 < wend - today) \<longleftrightarrow>
      \<not> wend - today < 0 \<and> \<not> (0 \<le> wend - today \<and> wend - today \<le> 30) \<and>
      \<not> (30 < wend - today \<and> wend - today \<le> 90)"
    by arith
  show ?thesis
    unfolding classify_all_batches get_warranty_summary_lists
    apply (intro exI conjI)
            apply (rule refl)
           apply (rule refl)
          apply (simp add: mk_asset_info_def mk_asset_data_def)
         apply (simp only: summary.simps sx ex)
        apply (simp only: summary.simps s30 e30)
       apply (simp only: summary.simps s90 e90)
      apply (simp only: summary.simps sx s30 s90 sa act)
     apply (simp only: summary.simps sa)
    using none apply auto
    done
qed

text \<open>
  An asset whose warranty ended five days ago is in the expired list of the summary and
  in the expired batch of the run, with \<open>days_remaining = -5\<close> in both.
\<close>

theorem summary_agrees_with_alerts_witness:
  "\<exists>S expiring_90 expiring_30 expired.
     get_warranty_summary (sample_world [sample_asset 1 (Some 95) (Some AVAILABLE) None] []) 100 = Inr S \<and>
     classify_all (sample_world [sample_asset 1 (Some 95) (Some AVAILABLE) None] []) 100 0 =
       Inr (expiring_90, expiring_30, expired) \<and>
     (sample_asset 1 (Some 95) (Some AVAILABLE) None,
      mk_asset_data (sample_world [sample_asset 1 (Some 95) (Some AVAILABLE) None] [])
        (sample_asset 1 (Some 95) (Some AVAILABLE) None) 95 (- 5)) \<in> set expired \<and>
     mk_asset_info (sample_world [sample_asset 1 (Some 95) (Some AVAILABLE) None] [])
        (sample_asset 1 (Some 95) (Some AVAILABLE) None) 95 (- 5) \<in> set (s_expired S) \<and>
     ai_days_remaining
       (mk_asset_info (sample_world [sample_asset 1 (Some 95) (Some AVAILABLE) None] [])
          (sample_asset 1 (Some 95) (Some AVAILABLE) None) 95 (- 5)) = - 5"
proof -
  let ?A = "sample_asset 1 (Some 95) (Some AVAILABLE) None"
  let ?W = "sample_world [?A] []"
  have a: "?A \<in> set (assets ?W)" "status ?A = Some AVAILABLE" "AVAILABLE \<noteq> DECOMMISSIONED"
      "warranty_end ?A = Some 95"
    by (simp_all add: sample_world_def sample_asset_def)
  have n: "\<not> check_warranty_already_notified ?W 0 i t d" for i t d
    by (simp add: check_warranty_already_notified_def sample_world_def)
  from summary_agrees_with_alerts[OF a, where today = 100 and utcnow = 0]
  obtain S e90 e30 ex where
    s: "get_warranty_summary ?W 100 = Inr S" and
    c: "classify_all ?W 100 0 = Inr (e90, e30, ex)" and
    m: "((?A, mk_asset_data ?W ?A 95 (95 - 100)) \<in> set ex) =
          (mk_asset_info ?W ?A 95 (95 - 100) \<in> set (s_expired S) \<and>
           \<not> check_warranty_already_notified ?W 0 (id' ?A) ''expired'' 30)"
    by blast
  from c have "ex = [entry ?W 100 ?A]" unfolding sample_single_expired by simp
  then have x: "(?A, mk_asset_data ?W ?A 95 (- 5)) \<in> set ex"
    by (simp add: entry_def days_left_def sample_asset_def)
  with m n have y: "mk_asset_info ?W ?A 95 (- 5) \<in> set (s_expired S)" by simp
  have z: "ai_days_remaining (mk_asset_info ?W ?A 95 (- 5)) = - 5" by (simp add: mk_asset_info_def)
  from s c x y z show ?thesis by blast
qed

section \<open>The lifecycle of an asset\<close>

lemma query_after_save:
  "find (\<lambda>x. id' x = i) xs = Some a \<Longrightarrow> id' a' = i \<Longrightarrow>
     find (\<lambda>x. id' x = i) (save_asset a' xs) = Some a'"
  by (induction xs) (auto split: if_splits)

lemma query_asset_id: "query_asset db i = Some a \<Longrightarrow> id' a = i"
  by (auto simp: query_asset_def find_Some_iff)

lemma sample_query:
  "query_asset (sample_world [sample_asset i w st e] h) i = Some (sample_asset i w st e)"
  by (simp add: query_asset_def sample_world_def sample_asset_def)

subsection \<open>Assigning\<close>

text \<open>
  Claim C7. Assigning (or unassigning) an asset whose status is \<open>decommissioned\<close>
  is refused with HTTP 400, the invalid transition, and the whole state is returned as it
  was: no field of the asset, no audit entry, no mail.
\<close>

theorem assign_decommissioned_rejected:
  assumes "query_asset db asset_id = Some asset" and "status asset = Some DECOMMISSIONED"
  shows "assign_asset asset_id assignment current_user today db =
           (Inl (HTTPException 400 ''Cannot assign decommissioned asset''), db)"
  using assms by (simp add: assign_asset_def)

theorem assign_decommissioned_rejected_witness:
  "assign_asset 1 \<lparr>employee_id = Some 42\<rparr> sample_admin 100
     (sample_world [sample_asset 1 None (Some DECOMMISSIONED) None] []) =
   (Inl (HTTPException 400 ''Cannot assign decommissioned asset''),
    sample_world [sample_asset 1 None (Some DECOMMISSIONED) None] [])"
proof -
  have q: "query_asset (sample_world [sample_asset 1 None (Some DECOMMISSIONED) None] []) 1 =
             Some (sample_asset 1 None (Some DECOMMISSIONED) None)"
    by (simp add: query_asset_def sample_world_def sample_asset_def)
  have s: "status (sample_asset 1 None (Some DECOMMISSIONED) None) = Some DECOMMISSIONED"
    by (simp add: sample_asset_def)
  show ?thesis by (rule assign_decommissioned_rejected[OF q s])
qed

subsection \<open>Decommissioning\<close>

lemma log_action_decommission:
  "log_action db uid ''DECOMMISSION'' ''asset'' eid (Some [(''reason'', JAtom (PStr r))]) aid =
     Inr (db\<lparr>audit_logs := audit_logs db @
            [\<lparr>l_user_id = uid, l_asset_id = aid, action = ''DECOMMISSION'',
              entity_type = ''asset'', entity_id = eid,
              changes = Some [(''reason'', JAtom (PStr r))]\<rparr>]\<rparr>)"
  by (simp add: log_action_def json_dumps_def)

text \<open>
  Claim C8. A reason of fewer than 10 characters is rejected with a validation error and
  the state is unchanged. With at least 10 characters and an asset that is not
  decommissioned, the request succeeds: the asset gets status \<open>decommissioned\<close>,
  \<open>decommission_date = today\<close>, the reason, and \<open>assigned_to\<close> and
  \<open>assigned_date\<close> cleared; it is stored under its key, and one audit entry is
  written.
\<close>

theorem decommission_reason_length:
  "(length r < 10 \<longrightarrow>
      decommission_route asset_id r current_user today db = (Inl ValidationError, db)) \<and>
   (10 \<le> length r \<and> query_asset db asset_id = Some asset \<and> status asset \<noteq> Some DECOMMISSIONED \<longrightarrow>
      decommission_route asset_id r current_user today db =
        (Inr (asset\<lparr>status := Some DECOMMISSIONED, decommission_date := Some today,
                     decommission_reason := Some r, assigned_to := None, assigned_date := None\<rparr>),
         db\<lparr>audit_logs := audit_logs db @
               [\<lparr>l_user_id = u_id current_user, l_asset_id = Some asset_id,
                 action = ''DECOMMISSION'', entity_type = ''asset'', entity_id = Some asset_id,
                 changes = Some [(''reason'', JAtom (PStr r))]\<rparr>],
            assets := save_asset
               (asset\<lparr>status := Some DECOMMISSIONED, decommission_date := Some today,
                      decommission_reason := Some r, assigned_to := None, assigned_date := None\<rparr>)
               (assets db)\<rparr>) \<and>
      query_asset (snd (decommission_route asset_id r current_user today db)) asset_id =
        Some (asset\<lparr>status := Some DECOMMISSIONED, decommission_date := Some today,
                    decommission_reason := Some r, assigned_to := None, assigned_date := None\<rparr>))"
proof (intro conjI impI)
  assume "length r < 10"
  then show "decommission_route asset_id r current_user today db = (Inl ValidationError, db)"
    by (simp add: decommission_route_def validate_AssetDecommission_def)
next
  let ?a' = "asset\<lparr>status := Some DECOMMISSIONED, decommission_date := Some today,
                   decommission_reason := Some r, assigned_to := None, assigned_date := None\<rparr>"
  assume h: "10 \<le> length r \<and> query_asset db asset_id = Some asset \<and> status asset \<noteq> Some DECOMMISSIONED"
  then have i: "id' asset = asset_id" by (blast dest: query_asset_id)
  from h i show r: "decommission_route asset_id r current_user today db =
        (Inr ?a',
         db\<lparr>audit_logs := audit_logs db @
               [\<lparr>l_user_id = u_id current_user, l_asset_id = Some asset_id,
                 action = ''DECOMMISSION'', entity_type = ''asset'', entity_id = Some asset_id,
                 changes = Some [(''reason'', JAtom (PStr r))]\<rparr>],
            assets := save_asset ?a' (assets db)\<rparr>)"
    by (simp add: decommission_route_def validate_AssetDecommission_def decommission_asset_def
          log_action_decommission Let_def)
  from h have "find (\<lambda>x. id' x = asset_id) (assets db) = Some asset" by (simp add: query_asset_def)
  then have "find (\<lambda>x. id' x = asset_id) (save_asset ?a' (assets db)) = Some ?a'"
    by (rule query_after_save) (simp add: i)
  then show "query_asset (snd (decommission_route asset_id r current_user today db)) asset_id = Some ?a'"
    unfolding r by (simp add: query_asset_def)
qed

text \<open>
  A reason of 9 characters is refused, one of 10 characters decommissions an assigned
  asset and clears its assignment.
\<close>

theorem decommission_reason_length_witness:
  "decommission_route 1 [98, 114, 111, 107, 101, 110, 32, 108, 99] sample_admin 100
     (sample_world [sample_asset 1 None (Some ACTIVE) (Some 42)] []) =
     (Inl ValidationError, sample_world [sample_asset 1 None (Some ACTIVE) (Some 42)] []) \<and>
   fst (decommission_route 1 [98, 114, 111, 107, 101, 110, 32, 108, 99, 100] sample_admin 100
     (sample_world [sample_asset 1 None (Some ACTIVE) (Some 42)] [])) =
     Inr ((sample_asset 1 None (Some ACTIVE) (Some 42))
            \<lparr>status := Some DECOMMISSIONED, decommission_date := Some 100,
             decommission_reason := Some [98, 114, 111, 107, 101, 110, 32, 108, 99, 100],
             assigned_to := None, assigned_date := None\<rparr>)"
proof -
  let ?A = "sample_asset 1 None (Some ACTIVE) (Some 42)"
  let ?W = "sample_world [?A] []"
  have s: "status ?A \<noteq> Some DECOMMISSIONED" by (simp add: sample_asset_def)
  have l9: "length [98, 114, 111, 107, 101, 110, 32, 108, 99 :: nat] < 10" by simp
  have l10: "10 \<le> length [98, 114, 111, 107, 101, 110, 32, 108, 99, 100 :: nat]" by simp
  from decommission_reason_length[of "[98, 114, 111, 107, 101, 110, 32, 108, 99]" 1 sample_admin 100 ?W ?A] l9
  have a: "decommission_route 1 [98, 114, 111, 107, 101, 110, 32, 108, 99] sample_admin 100 ?W =
             (Inl ValidationError, ?W)"
    by blast
  from decommission_reason_length[of "[98, 114, 111, 107, 101, 110, 32, 108, 99, 100]" 1 sample_admin 100 ?W ?A]
    l10 sample_query[of 1 None "Some ACTIVE" "Some 42" "[]"] s
  have b: "fst (decommission_route 1 [98, 114, 111, 107, 101, 110, 32, 108, 99, 100] sample_admin 100 ?W) =
     Inr (?A\<lparr>status := Some DECOMMISSIONED, decommission_date := Some 100,
             decommission_reason := Some [98, 114, 111, 107, 101, 110, 32, 108, 99, 100],
             assigned_to := None, assigned_date := None\<rparr>)"
    by simp
  from a b show ?thesis by (rule conjI)
qed

subsection \<open>Recording a repair\<close>

text \<open>
  \<open>repair_date\<close> is a required \<open>date\<close> of the body, so the dict that
  \<open>add_repair\<close> hands to \<open>log_action\<close> always holds a \<open>datetime.date\<close>, and
  \<open>json.dumps\<close> raises: the handler ends in \<open>TypeError\<close> before its commit, for
  every asset that exists.
\<close>

lemma log_action_repair_fails:
  "log_action db uid act etype eid (Some (RepairCreate_model_dump r)) aid = Inl TypeError"
  by (simp add: log_action_def json_dumps_def RepairCreate_model_dump_def)

lemma add_repair_result:
  "add_repair asset_id repair_data current_user db =
     (case query_asset db asset_id of
        None \<Rightarrow> (Inl (HTTPException 404 ''Asset not found''), db)
      | Some asset \<Rightarrow> (Inl TypeError, db))"
  by (simp add: add_repair_def log_action_repair_fails split: option.splits prod.splits)

text \<open>
  Claim C9 fails on \<open>add_repair\<close>. A valid request for an available asset ends in
  \<open>TypeError\<close> at the audit entry, before the commit: the state is returned as it
  was, the stored asset is still \<open>available\<close> and no repair record exists. The
  handler sets the status and adds the record in its session, and never stores them.
\<close>

theorem add_repair_stores_nothing:
  "add_repair 1 sample_repair sample_admin
     (sample_world [sample_asset 1 None (Some AVAILABLE) None] []) =
     (Inl TypeError, sample_world [sample_asset 1 None (Some AVAILABLE) None] []) \<and>
   map_option status
     (query_asset
        (snd (add_repair 1 sample_repair sample_admin
                (sample_world [sample_asset 1 None (Some AVAILABLE) None] [])))
        1) = Some (Some AVAILABLE) \<and>
   repairs
     (snd (add_repair 1 sample_repair sample_admin
             (sample_world [sample_asset 1 None (Some AVAILABLE) None] []))) = []"
proof -
  have r: "add_repair 1 sample_repair sample_admin
             (sample_world [sample_asset 1 None (Some AVAILABLE) None] []) =
           (Inl TypeError, sample_world [sample_asset 1 None (Some AVAILABLE) None] [])"
    by (simp add: add_repair_result sample_query)
  have s: "status (sample_asset 1 None (Some AVAILABLE) None) = Some AVAILABLE"
    by (simp add: sample_asset_def)
  have e: "repairs (sample_world [sample_asset 1 None (Some AVAILABLE) None] []) = []"
    by (simp add: sample_world_def)
  show ?thesis unfolding r by (simp add: sample_query s e)
qed

subsection \<open>The free-form update\<close>

lemma update_status_only:
  "apply_updates (no_update\<lparr>up_status := Some v\<rparr>) (asset, []) =
     (if status asset \<noteq> v
      then (asset\<lparr>status := v\<rparr>,
            [(''status'', JDict [(''old'', PStrOf (py_status (status asset))),
                                 (''new'', PStrOf (py_status v))])])
      else (asset, []))"
  by (simp add: apply_updates_def set_field_def no_update_def Let_def)

lemma no_update_status_no_null: "\<not> null_violation (no_update\<lparr>up_status := Some v\<rparr>)"
  by (simp add: null_violation_def no_update_def)

lemma update_asset_status:
  assumes "query_asset db asset_id = Some asset" and "status asset \<noteq> v"
  shows "update_asset asset_id (no_update\<lparr>up_status := Some v\<rparr>) current_user db =
     (Inr (asset\<lparr>status := v\<rparr>),
      db\<lparr>audit_logs := audit_logs db @
            [\<lparr>l_user_id = u_id current_user, l_asset_id = Some (id' asset), action = ''UPDATE'',
              entity_type = ''asset'', entity_id = Some (id' asset),
              changes = Some [(''status'', JDict [(''old'', PStrOf (py_status (status asset))),
                                                  (''new'', PStrOf (py_status v))])]\<rparr>],
         assets := save_asset (asset\<lparr>status := v\<rparr>) (assets db)\<rparr>)"
  using assms
  by (simp add: update_asset_def update_status_only log_action_def json_dumps_def
        no_update_status_no_null unique_violation_def)

lemma query_after_update_status:
  assumes "query_asset db asset_id = Some asset" and "status asset \<noteq> v"
  shows "query_asset (snd (update_asset asset_id (no_update\<lparr>up_status := Some v\<rparr>) current_user db))
           asset_id = Some (asset\<lparr>status := v\<rparr>)"
proof -
  from assms(1) have i: "id' asset = asset_id" by (rule query_asset_id)
  from assms(1) have "find (\<lambda>x. id' x = asset_id) (assets db) = Some asset"
    by (simp add: query_asset_def)
  then have "find (\<lambda>x. id' x = asset_id) (save_asset (asset\<lparr>status := v\<rparr>) (assets db)) =
               Some (asset\<lparr>status := v\<rparr>)"
    by (rule query_after_save) (simp add: i)
  then show ?thesis
    unfolding update_asset_status[OF assms] by (simp add: query_asset_def)
qed

text \<open>
  Claim C5 fails on \<open>update_asset\<close>: a request that sets \<open>status\<close> to
  \<open>active\<close> on a decommissioned asset is carried out, and the stored asset is
  \<open>active\<close> afterwards.
\<close>

theorem update_asset_revives_decommissioned:
  "map_option status
     (query_asset (sample_world [sample_asset 1 None (Some DECOMMISSIONED) None] []) 1) =
     Some (Some DECOMMISSIONED) \<and>
   map_option status
     (query_asset
        (snd (update_asset 1 (no_update\<lparr>up_status := Some (Some ACTIVE)\<rparr>) sample_admin
                (sample_world [sample_asset 1 None (Some DECOMMISSIONED) None] [])))
        1) = Some (Some ACTIVE)"
proof -
  have s: "status (sample_asset 1 None (Some DECOMMISSIONED) None) = Some DECOMMISSIONED"
    by (simp add: sample_asset_def)
  then have "status (sample_asset 1 None (Some DECOMMISSIONED) None) \<noteq> Some ACTIVE" by simp
  from query_after_update_status[OF sample_query this] s show ?thesis
    by (simp add: sample_query)
qed

text \<open>
  Claim C6 fails on \<open>update_asset\<close>: an available, unassigned asset satisfies the
  invariant; after a request that sets \<open>status\<close> to \<open>active\<close> the stored asset is
  active with no \<open>assigned_to\<close>.
\<close>

theorem update_asset_breaks_assignment_invariant:
  "map_option assignment_invariant
     (query_asset (sample_world [sample_asset 1 None (Some AVAILABLE) None] []) 1) = Some True \<and>
   map_option assignment_invariant
     (query_asset
        (snd (update_asset 1 (no_update\<lparr>up_status := Some (Some ACTIVE)\<rparr>) sample_admin
                (sample_world [sample_asset 1 None (Some AVAILABLE) None] [])))
        1) = Some False"
proof -
  have s: "status (sample_asset 1 None (Some AVAILABLE) None) = Some AVAILABLE"
      "assigned_to (sample_asset 1 None (Some AVAILABLE) None) = None"
    by (simp_all add: sample_asset_def)
  then have "status (sample_asset 1 None (Some AVAILABLE) None) \<noteq> Some ACTIVE" by simp
  from query_after_update_status[OF sample_query this] s show ?thesis
    by (simp add: sample_query assignment_invariant_def)
qed

text \<open>
  The other handlers leave a decommissioned asset as it is.
\<close>

lemma decommissioned_is_terminal_elsewhere:
  assumes "query_asset db asset_id = Some asset" and "status asset = Some DECOMMISSIONED"
  shows "snd (assign_asset asset_id assignment current_user today db) = db"
    and "snd (decommission_asset asset_id decommission_data current_user today db) = db"
    and "snd (mark_asset_fixed asset_id current_user db) = db"
    and "snd (add_repair asset_id repair_data current_user db) = db"
    and "fst (add_repair_staged asset_id repair_data asset db) = asset"
  using assms
  by (simp_all add: assign_asset_def decommission_asset_def mark_asset_fixed_def
        add_repair_result add_repair_staged_def Let_def)

lemma log_action_assign:
  "log_action db uid ''ASSIGN'' ''asset'' eid
     (Some [(''old_employee_id'', JAtom (py_int old)), (''new_employee_id'', JAtom (py_int new))]) aid =
   Inr (db\<lparr>audit_logs := audit_logs db @
          [\<lparr>l_user_id = uid, l_asset_id = aid, action = ''ASSIGN'', entity_type = ''asset'',
            entity_id = eid,
            changes = Some [(''old_employee_id'', JAtom (py_int old)),
                            (''new_employee_id'', JAtom (py_int new))]\<rparr>]\<rparr>)"
  by (cases old; cases new) (simp_all add: log_action_def json_dumps_def py_int_def)

lemma log_action_None:
  "log_action db uid act etype eid None aid =
   Inr (db\<lparr>audit_logs := audit_logs db @
          [\<lparr>l_user_id = uid, l_asset_id = aid, action = act, entity_type = etype,
            entity_id = eid, changes = None\<rparr>]\<rparr>)"
  by (simp add: log_action_def)

text \<open>
  The handlers of the lifecycle keep the invariant (for \<open>mark_asset_fixed\<close>, when the
  reference is not the falsy \<open>0\<close>).
\<close>

lemma lifecycle_keeps_assignment_invariant:
  assumes "query_asset db asset_id = Some asset" and "assignment_invariant asset"
  shows "assign_asset asset_id assignment current_user today db = (Inr a1, db1)
           \<Longrightarrow> assignment_invariant a1"
    and "decommission_asset asset_id decommission_data current_user today db = (Inr a2, db2)
           \<Longrightarrow> assignment_invariant a2"
    and "assigned_to asset \<noteq> Some 0 \<Longrightarrow> mark_asset_fixed asset_id current_user db = (Inr a3, db3)
           \<Longrightarrow> assignment_invariant a3"
    and "assignment_invariant (fst (add_repair_staged asset_id repair_data asset db))"
proof -
  show "assign_asset asset_id assignment current_user today db = (Inr a1, db1)
           \<Longrightarrow> assignment_invariant a1"
    using assms
    by (auto simp: assign_asset_def log_action_assign Let_def assignment_invariant_def
          split: if_splits option.splits)
  show "decommission_asset asset_id decommission_data current_user today db = (Inr a2, db2)
           \<Longrightarrow> assignment_invariant a2"
    using assms
    by (auto simp: decommission_asset_def log_action_decommission Let_def assignment_invariant_def
          split: if_splits)
  show "assigned_to asset \<noteq> Some 0 \<Longrightarrow> mark_asset_fixed asset_id current_user db = (Inr a3, db3)
           \<Longrightarrow> assignment_invariant a3"
    using assms
    by (auto simp: mark_asset_fixed_def log_action_None Let_def assignment_invariant_def py_bool_def
          split: if_splits option.splits)
  show "assignment_invariant (fst (add_repair_staged asset_id repair_data asset db))"
    using assms by (auto simp: add_repair_staged_def Let_def assignment_invariant_def)
qed

end
